theory Spec2Isabelle
  imports Main "HOL-Library.Sublist"
begin

section \<open>Values shared by all components\<close>

text \<open>
  JavaScript exceptions are values. \<open>Error\<close> is what the sources throw themselves
  (\<^verbatim>\<open>throw new Error(...)\<close>); \<open>TypeError\<close> is what the runtime throws on a write to
  a frozen object or on a property read of \<^verbatim>\<open>undefined\<close>; the message of such an error
  is worded by the runtime, and the strings given here only name the failing operation.
  Callbacks supplied by the application (predicates, handlers, generators) may throw
  either.
\<close>

datatype error = Error string | TypeError string

text \<open>Menus are objects with identity; they live in a store and are named by address.\<close>

type_synonym addr = nat

text \<open>
  The context \<^verbatim>\<open>ctx\<close> of one incoming update. Only the parts the sources read are
  fields: \<^verbatim>\<open>ctx.callbackQuery\<close>, its \<^verbatim>\<open>message\<close> (kept as the \<^verbatim>\<open>message_id\<close> it
  carries) and its \<^verbatim>\<open>data\<close>. Everything else the application's callbacks may look at is
  the field \<open>ctx_state\<close>.
\<close>

record callback_query =
  cq_message :: "int option"
  cq_data :: "string option"

record 'u ctx =
  callbackQuery :: "callback_query option"
  ctx_state :: 'u

text \<open>
  The object built by \<^verbatim>\<open>Menu.#createMenuApi(targetMenu)\<close>: its four closures all act
  on the one captured menu, so the object is determined by that menu.
\<close>

datatype menu_api = MenuApi (api_menu: addr)

text \<open>
  What a callback of the application (the \<^verbatim>\<open>middleware\<close> of a button or its
  \<^verbatim>\<open>doWhenDisable\<close>) does to the library: the calls it makes, in order. \<^verbatim>\<open>update()\<close>,
  \<^verbatim>\<open>nav(menuId, payload)\<close> and \<^verbatim>\<open>back(menuId, payload)\<close> are closures of its \<^verbatim>\<open>menuApi\<close>
  argument. \<open>ParentNav x menuId payload\<close> is what the closure built by \<^verbatim>\<open>Menu.back\<close> does:
  \<^verbatim>\<open>menu.nav(menuId || this.parentMenuId, payload)\<close>, where \<^verbatim>\<open>this\<close> is the menu \<open>x\<close> the
  closure captured. A payload that is missing is \<^verbatim>\<open>null\<close>, here \<open>None\<close>.
\<close>

datatype 'p api_call =
    ApiUpdate
  | ApiNav string "'p option"
  | ApiBack "string option" "'p option"
  | ParentNav addr "string option" "'p option"

text \<open>
  A callback is called with \<^verbatim>\<open>(ctx, menuApi)\<close>. The fourth closure of \<^verbatim>\<open>menuApi\<close>,
  \<^verbatim>\<open>getPayload()\<close>, is a read of the registry: what it returns when the callback starts is
  the third argument here. The callback yields the calls it makes and then the value it
  returns (\<open>None\<close> is \<^verbatim>\<open>undefined\<close>) or the exception it throws. A call that throws ends
  the callback with that exception, as in the closures the library builds itself, which
  catch nothing. A callback that reaches the registry by another way than its \<^verbatim>\<open>menuApi\<close>
  is not described.
\<close>

type_synonym ('u, 'p) callback =
  "'u ctx \<Rightarrow> menu_api \<Rightarrow> 'p option \<Rightarrow> 'p api_call list \<times> (error + string option)"

text \<open>
  What happens while a handler runs, in order: calls of the application's callbacks,
  calls of \<^verbatim>\<open>update()\<close> on a menu, and lines written to the console.
\<close>

datatype event =
    CallMiddleware menu_api
  | CallDoWhenDisable menu_api
  | CallUpdate addr
  | ConsoleError string error
  | ConsoleLog string
  | AnswerCbQuery
  | CallNext

text \<open>
  \<^verbatim>\<open>Date.now()\<close> and \<^verbatim>\<open>Math.random()\<close> are inputs from the environment. The only use
  the sources make of them is to hash them and keep the first 16 hexadecimal digits of
  the digest, that is its first 64 bits. The environment is therefore a stream of
  numbers, one per call of \<^verbatim>\<open>#generateCallbackData\<close>, each read modulo \<open>2 ^ 64\<close>.
\<close>

type_synonym entropy = "nat \<Rightarrow> nat"

definition draw :: "entropy \<Rightarrow> nat \<times> entropy" where
  "draw e = (e 0, (\<lambda>n. e (Suc n)))"

definition hex_char :: "nat \<Rightarrow> char" where
  "hex_char d = (''0123456789abcdef'') ! (d mod 16)"

fun hex_digits :: "nat \<Rightarrow> nat \<Rightarrow> string" where
  "hex_digits 0 n = []"
| "hex_digits (Suc k) n = hex_digits k (n div 16) @ [hex_char n]"

text \<open>JavaScript truthiness of a value that is a string, \<^verbatim>\<open>null\<close> or \<^verbatim>\<open>undefined\<close>.\<close>

fun truthy :: "string option \<Rightarrow> bool" where
  "truthy None = False"
| "truthy (Some s) = (s \<noteq> [])"

section \<open>Button (src/src/button.js)\<close>

datatype button_type = Action | Url | WebApp | Placeholder

text \<open>
  The label argument of the constructor is a string or a function; the constructor
  stores it in exactly one of \<^verbatim>\<open>#_label\<close> and \<^verbatim>\<open>#_labelFunction\<close> and sets the other to
  \<^verbatim>\<open>null\<close>. The two private fields are one field of a sum type here.
\<close>

datatype 'u label = Literal string | Computed "'u ctx \<Rightarrow> string"

text \<open>The \<^verbatim>\<open>requirement\<close> argument as the caller passes it: every property optional.\<close>

record ('u, 'p) requirement_arg =
  arg_require :: "('u ctx \<Rightarrow> error + bool) option"
  arg_disable :: "bool option"
  arg_doWhenDisable :: "('u, 'p) callback option"
  arg_hidden :: "bool option"

text \<open>
  The \<^verbatim>\<open>requirement\<close> object the constructor builds. It is an object of its own, so it
  has its own frozen flag.
\<close>

record ('u, 'p) requirement =
  req_require :: "'u ctx \<Rightarrow> error + bool"
  req_disable :: bool
  req_doWhenDisable :: "('u, 'p) callback"
  req_hidden :: bool
  req_frozen :: bool

record ('u, 'p) button_options =
  opt_type :: "button_type option"
  opt_url :: "string option"
  opt_middleware :: "('u, 'p) callback option"
  opt_requirement :: "('u, 'p) requirement_arg option"

text \<open>
  A Button. \<open>b_isDisable\<close> and \<open>b_isHidden\<close> are the private fields \<^verbatim>\<open>#isDisable\<close> and
  \<^verbatim>\<open>#isHidden\<close>; \<open>b_frozen\<close> records that \<^verbatim>\<open>Object.freeze\<close> was applied to the object.
  Private fields are not properties, so freezing does not protect them.
\<close>

record ('u, 'p) button =
  b_labelSource :: "'u label"
  b_type :: button_type
  b_url :: "string option"
  b_middleware :: "('u, 'p) callback option"
  b_requirement :: "('u, 'p) requirement"
  b_isDisable :: bool
  b_isHidden :: bool
  b_callbackData :: "string option"
  b_frozen :: bool

text \<open>\<^verbatim>\<open>#generateCallbackData(type)\<close>: the first 16 hex digits of a fresh digest.\<close>

definition generateCallbackData :: "button_type \<Rightarrow> entropy \<Rightarrow> string \<times> entropy" where
  "generateCallbackData t e = (case draw e of (n, e') \<Rightarrow> (hex_digits 16 n, e'))"

text \<open>\<^verbatim>\<open>x || d\<close> for an optional property \<open>x\<close> whose values are all truthy (functions).\<close>

definition or_default :: "'a option \<Rightarrow> 'a \<Rightarrow> 'a" where
  "or_default x d = (case x of None \<Rightarrow> d | Some v \<Rightarrow> v)"

text \<open>\<^verbatim>\<open>!!x || false\<close> for an optional boolean property.\<close>

definition to_bool :: "bool option \<Rightarrow> bool" where
  "to_bool x = (case x of None \<Rightarrow> False | Some v \<Rightarrow> v)"

definition build_requirement :: "('u, 'p) requirement_arg option \<Rightarrow> ('u, 'p) requirement" where
  "build_requirement r =
     (case r of
        None \<Rightarrow>
          \<lparr>req_require = (\<lambda>ctx. Inr True), req_disable = False,
           req_doWhenDisable = (\<lambda>ctx api p. ([], Inr None)), req_hidden = False, req_frozen = False\<rparr>
      | Some a \<Rightarrow>
          \<lparr>req_require = or_default (arg_require a) (\<lambda>ctx. Inr True),
           req_disable = to_bool (arg_disable a),
           req_doWhenDisable = or_default (arg_doWhenDisable a) (\<lambda>ctx api p. ([], Inr None)),
           req_hidden = to_bool (arg_hidden a), req_frozen = False\<rparr>)"

text \<open>
  The constructor. It throws when \<^verbatim>\<open>type\<close> is missing; it draws a token from the
  environment only for the type \<^verbatim>\<open>'action'\<close>.
\<close>

definition Button :: "'u label \<Rightarrow> ('u, 'p) button_options \<Rightarrow> entropy \<Rightarrow> (error + ('u, 'p) button) \<times> entropy" where
  "Button lbl opts e =
     (case opt_type opts of
        None \<Rightarrow> (Inl (Error ''Button type is required.''), e)
      | Some t \<Rightarrow>
          (let (cb, e') = (if t = Action
                           then (case generateCallbackData t e of (tok, e1) \<Rightarrow> (Some tok, e1))
                           else (None, e))
           in (Inr \<lparr>b_labelSource = lbl, b_type = t, b_url = opt_url opts,
                    b_middleware = opt_middleware opts,
                    b_requirement = build_requirement (opt_requirement opts),
                    b_isDisable = False, b_isHidden = False,
                    b_callbackData = cb, b_frozen = False\<rparr>, e')))"

definition getLabel :: "('u, 'p) button \<Rightarrow> 'u ctx \<Rightarrow> string" where
  "getLabel b ctx = (case b_labelSource b of Literal s \<Rightarrow> s | Computed f \<Rightarrow> f ctx)"

definition rawLabel :: "('u, 'p) button \<Rightarrow> string option" where
  "rawLabel b = (case b_labelSource b of Literal s \<Rightarrow> Some s | Computed f \<Rightarrow> None)"

text \<open>
  \<^verbatim>\<open>evaluateRequirement(ctx)\<close>. The predicate may throw; then nothing was assigned and
  the exception leaves the method.
\<close>

definition evaluateRequirement :: "'u ctx \<Rightarrow> ('u, 'p) button \<Rightarrow> error + (('u, 'p) button \<times> bool)" where
  "evaluateRequirement ctx b =
     (if b_type b = Placeholder then Inr (b\<lparr>b_isHidden := True\<rparr>, False)
      else (case req_require (b_requirement b) ctx of
              Inl err \<Rightarrow> Inl err
            | Inr check \<Rightarrow>
                Inr (b\<lparr>b_isDisable := (\<not> check \<and> req_disable (b_requirement b)),
                       b_isHidden := (\<not> check \<and> req_hidden (b_requirement b))\<rparr>, check)))"

text \<open>
  The wire form of a button: \<^verbatim>\<open>{text, url?, callback_data?}\<close>. The marker appended to a
  disabled label is the text between \<^verbatim>\<open>}\<close> and the closing backquote of the template
  literal in the source file: a space and the four characters U+00F0, U+0178, U+201D,
  U+2019, here as the bytes the file holds for them.
\<close>

record wire =
  w_text :: string
  w_url :: "string option"
  w_callback_data :: "string option"

definition lock_marker :: string where
  "lock_marker =
     [CHR '' '', CHR 0xC3, CHR 0xB0, CHR 0xC5, CHR 0xB8, CHR 0xE2, CHR 0x80, CHR 0x9D,
      CHR 0xE2, CHR 0x80, CHR 0x99]"

text \<open>
  \<^verbatim>\<open>toJSON(ctx)\<close>; \<open>None\<close> is \<^verbatim>\<open>null\<close>. The environment is read only in the disabled
  branch, and there only when \<^verbatim>\<open>this.callbackData\<close> is falsy.
\<close>

definition Button_toJSON :: "'u ctx \<Rightarrow> ('u, 'p) button \<Rightarrow> entropy \<Rightarrow> wire option \<times> entropy" where
  "Button_toJSON ctx b e =
     (if b_isHidden b then (None, e)
      else if b_type b = Placeholder then (None, e)
      else if b_isDisable b then
        (if truthy (b_callbackData b)
         then (Some \<lparr>w_text = getLabel b ctx @ lock_marker, w_url = None,
                     w_callback_data = b_callbackData b\<rparr>, e)
         else (case generateCallbackData Action e of
                 (tok, e') \<Rightarrow>
                   (Some \<lparr>w_text = getLabel b ctx @ lock_marker, w_url = None,
                          w_callback_data = Some tok\<rparr>, e')))
      else
        (Some \<lparr>w_text = getLabel b ctx,
               w_url = (if truthy (b_url b) then b_url b else None),
               w_callback_data = (if truthy (b_callbackData b) then b_callbackData b else None)\<rparr>, e))"


section \<open>ButtonManager (src/unnamed/part_002, first class)\<close>

text \<open>
  A JavaScript array: its elements and whether \<^verbatim>\<open>Object.freeze\<close> was applied to it.
  \<^verbatim>\<open>Array.prototype.push\<close> on a frozen array throws a \<^verbatim>\<open>TypeError\<close> and adds nothing.
\<close>

record 'a js_array =
  elems :: "'a list"
  arr_frozen :: bool

definition push :: "'a \<Rightarrow> 'a js_array \<Rightarrow> error + 'a js_array" where
  "push x a =
     (if arr_frozen a then Inl (TypeError ''Cannot add property, object is not extensible'')
      else Inr (a\<lparr>elems := elems a @ [x]\<rparr>))"

record ('u, 'p) button_manager =
  bm_buttons :: "('u, 'p) button js_array js_array"
  bm_frozen :: bool

text \<open>The constructor: \<^verbatim>\<open>this.buttons = []; this.buttons.push([])\<close>.\<close>

definition ButtonManager :: "('u, 'p) button_manager" where
  "ButtonManager =
     \<lparr>bm_buttons = \<lparr>elems = [\<lparr>elems = [], arr_frozen = False\<rparr>], arr_frozen = False\<rparr>,
      bm_frozen = False\<rparr>"

text \<open>
  \<^verbatim>\<open>addButton(button)\<close>: \<^verbatim>\<open>this.buttons[this.buttons.length - 1].push(button)\<close>. The row
  is an object of its own, so only the row's frozen flag matters for the push. With no
  row at all the index expression is \<^verbatim>\<open>undefined\<close> and the call throws.
\<close>

definition addButton :: "('u, 'p) button \<Rightarrow> ('u, 'p) button_manager \<Rightarrow> error + ('u, 'p) button_manager" where
  "addButton b bm =
     (let rows = elems (bm_buttons bm) in
      if rows = [] then Inl (TypeError ''Cannot read properties of undefined (reading push)'')
      else (case push b (last rows) of
              Inl err \<Rightarrow> Inl err
            | Inr r \<Rightarrow> Inr (bm\<lparr>bm_buttons := (bm_buttons bm)\<lparr>elems := butlast rows @ [r]\<rparr>\<rparr>)))"

text \<open>\<^verbatim>\<open>newRow()\<close>: pushes an empty row unless the last row is empty.\<close>

definition newRow :: "('u, 'p) button_manager \<Rightarrow> error + ('u, 'p) button_manager" where
  "newRow bm =
     (let rows = elems (bm_buttons bm) in
      if rows = [] \<or> elems (last rows) \<noteq> [] then
        (case push \<lparr>elems = [], arr_frozen = False\<rparr> (bm_buttons bm) of
           Inl err \<Rightarrow> Inl err
         | Inr a \<Rightarrow> Inr (bm\<lparr>bm_buttons := a\<rparr>))
      else Inr bm)"

definition getButtons :: "('u, 'p) button_manager \<Rightarrow> ('u, 'p) button js_array js_array" where
  "getButtons bm = bm_buttons bm"

text \<open>
  \<^verbatim>\<open>evaluateAll(ctx)\<close>: the two nested loops. A predicate that throws ends them; the
  buttons evaluated before keep their new flags.
\<close>

fun evaluateRow :: "'u ctx \<Rightarrow> ('u, 'p) button list \<Rightarrow> ('u, 'p) button list \<times> error option" where
  "evaluateRow ctx [] = ([], None)"
| "evaluateRow ctx (b # bs) =
     (case evaluateRequirement ctx b of
        Inl err \<Rightarrow> (b # bs, Some err)
      | Inr (b', check) \<Rightarrow> (case evaluateRow ctx bs of (bs', r) \<Rightarrow> (b' # bs', r)))"

fun evaluateRows :: "'u ctx \<Rightarrow> ('u, 'p) button js_array list \<Rightarrow> ('u, 'p) button js_array list \<times> error option" where
  "evaluateRows ctx [] = ([], None)"
| "evaluateRows ctx (row # rows) =
     (case evaluateRow ctx (elems row) of
        (bs, Some err) \<Rightarrow> (row\<lparr>elems := bs\<rparr> # rows, Some err)
      | (bs, None) \<Rightarrow> (case evaluateRows ctx rows of (rows', r) \<Rightarrow> (row\<lparr>elems := bs\<rparr> # rows', r)))"

definition evaluateAll :: "'u ctx \<Rightarrow> ('u, 'p) button_manager \<Rightarrow> ('u, 'p) button_manager \<times> error option" where
  "evaluateAll ctx bm =
     (case evaluateRows ctx (elems (bm_buttons bm)) of
        (rows, r) \<Rightarrow> (bm\<lparr>bm_buttons := (bm_buttons bm)\<lparr>elems := rows\<rparr>\<rparr>, r))"

text \<open>
  \<^verbatim>\<open>toJSON(ctx)\<close>: the inner loop collects the non-null results of one row, the outer
  loop keeps the rows that collected something.
\<close>

fun row_toJSON :: "'u ctx \<Rightarrow> ('u, 'p) button list \<Rightarrow> entropy \<Rightarrow> wire list \<times> entropy" where
  "row_toJSON ctx [] e = ([], e)"
| "row_toJSON ctx (b # bs) e =
     (case Button_toJSON ctx b e of
        (json, e1) \<Rightarrow>
          (case row_toJSON ctx bs e1 of
             (rowData, e2) \<Rightarrow> ((case json of None \<Rightarrow> rowData | Some j \<Rightarrow> j # rowData), e2)))"

fun rows_toJSON :: "'u ctx \<Rightarrow> ('u, 'p) button js_array list \<Rightarrow> entropy \<Rightarrow> wire list list \<times> entropy" where
  "rows_toJSON ctx [] e = ([], e)"
| "rows_toJSON ctx (row # rows) e =
     (case row_toJSON ctx (elems row) e of
        (rowData, e1) \<Rightarrow>
          (case rows_toJSON ctx rows e1 of
             (inlineKeyboard, e2) \<Rightarrow>
               ((if rowData \<noteq> [] then rowData # inlineKeyboard else inlineKeyboard), e2)))"

definition ButtonManager_toJSON :: "'u ctx \<Rightarrow> ('u, 'p) button_manager \<Rightarrow> entropy \<Rightarrow> wire list list \<times> entropy" where
  "ButtonManager_toJSON ctx bm e = rows_toJSON ctx (elems (bm_buttons bm)) e"

section \<open>MenuRange (src/unnamed/part_001)\<close>

text \<open>
  The three typed appends build their Button the same way in \<^verbatim>\<open>Menu\<close> and in
  \<^verbatim>\<open>MenuRange\<close>; the constructor calls are written once.
\<close>

definition text_button ::
  "'u label \<Rightarrow> ('u, 'p) callback option \<Rightarrow> ('u, 'p) requirement_arg option
     \<Rightarrow> entropy \<Rightarrow> (error + ('u, 'p) button) \<times> entropy" where
  "text_button lbl mw req e =
     Button lbl \<lparr>opt_type = Some Action, opt_url = None, opt_middleware = mw, opt_requirement = req\<rparr> e"

definition url_button ::
  "'u label \<Rightarrow> string \<Rightarrow> ('u, 'p) requirement_arg option \<Rightarrow> entropy \<Rightarrow> (error + ('u, 'p) button) \<times> entropy" where
  "url_button lbl u req e =
     Button lbl \<lparr>opt_type = Some Url, opt_url = Some u, opt_middleware = None, opt_requirement = req\<rparr> e"

definition webApp_button ::
  "'u label \<Rightarrow> string \<Rightarrow> ('u, 'p) requirement_arg option \<Rightarrow> entropy \<Rightarrow> (error + ('u, 'p) button) \<times> entropy" where
  "webApp_button lbl u req e =
     Button lbl \<lparr>opt_type = Some WebApp, opt_url = Some u, opt_middleware = None, opt_requirement = req\<rparr> e"

text \<open>
  The payload argument of \<^verbatim>\<open>submenu\<close> and \<^verbatim>\<open>back\<close>: a value, or a function that is called
  with \<^verbatim>\<open>(ctx, menuApi)\<close> and computes one (it may read \<^verbatim>\<open>menuApi.getPayload()\<close>, its third
  argument here) or throws.
\<close>

datatype ('u, 'p) payload_arg =
    PayloadValue "'p option"
  | PayloadFunction "'u ctx \<Rightarrow> menu_api \<Rightarrow> 'p option \<Rightarrow> error + 'p option"

text \<open>\<^verbatim>\<open>typeof payload === 'function' ? payload(ctx, menu) : payload\<close>\<close>

definition resolve_payload ::
  "('u, 'p) payload_arg \<Rightarrow> 'u ctx \<Rightarrow> menu_api \<Rightarrow> 'p option \<Rightarrow> error + 'p option" where
  "resolve_payload payload ctx menu current =
     (case payload of PayloadValue v \<Rightarrow> Inr v | PayloadFunction f \<Rightarrow> f ctx menu current)"


text \<open>
  A call on a \<^verbatim>\<open>MenuRange\<close>. \<^verbatim>\<open>submenu(label, id, payload)\<close> is \<^verbatim>\<open>text(label, closure)\<close>
  in the source, so it is the \<open>RText\<close> whose middleware is \<open>submenu_closure id payload\<close>
  and whose requirement is missing.
\<close>

datatype ('u, 'p) range_call =
    RText "'u label" "('u, 'p) callback option" "('u, 'p) requirement_arg option"
  | RUrl "'u label" string "('u, 'p) requirement_arg option"
  | RWebApp "'u label" string "('u, 'p) requirement_arg option"
  | RRow

definition append_built ::
  "(error + ('u, 'p) button) \<times> entropy \<Rightarrow> ('u, 'p) button_manager \<Rightarrow> (('u, 'p) button_manager \<times> error option) \<times> entropy" where
  "append_built r bm =
     (case r of
        (Inl err, e) \<Rightarrow> ((bm, Some err), e)
      | (Inr b, e) \<Rightarrow>
          (case addButton b bm of
             Inl err \<Rightarrow> ((bm, Some err), e)
           | Inr bm' \<Rightarrow> ((bm', None), e)))"

fun MenuRange_call ::
  "('u, 'p) range_call \<Rightarrow> ('u, 'p) button_manager \<Rightarrow> entropy \<Rightarrow> (('u, 'p) button_manager \<times> error option) \<times> entropy" where
  "MenuRange_call (RText lbl mw req) bm e = append_built (text_button lbl mw req e) bm"
| "MenuRange_call (RUrl lbl u req) bm e = append_built (url_button lbl u req e) bm"
| "MenuRange_call (RWebApp lbl u req) bm e = append_built (webApp_button lbl u req e) bm"
| "MenuRange_call RRow bm e =
     (case newRow bm of Inl err \<Rightarrow> ((bm, Some err), e) | Inr bm' \<Rightarrow> ((bm', None), e))"

text \<open>The calls a generator makes, in order; the first that throws ends the generator.\<close>

fun MenuRange_calls ::
  "('u, 'p) range_call list \<Rightarrow> ('u, 'p) button_manager \<Rightarrow> entropy \<Rightarrow> (('u, 'p) button_manager \<times> error option) \<times> entropy" where
  "MenuRange_calls [] bm e = ((bm, None), e)"
| "MenuRange_calls (c # cs) bm e =
     (case MenuRange_call c bm e of
        ((bm1, Some err), e1) \<Rightarrow> ((bm1, Some err), e1)
      | ((bm1, None), e1) \<Rightarrow> MenuRange_calls cs bm1 e1)"


section \<open>Strings of the placeholder convention\<close>

text \<open>Decimal rendering of a number, as a template literal renders \<^verbatim>\<open>array.length\<close>.\<close>

definition digit_char :: "nat \<Rightarrow> char" where
  "digit_char d = (''0123456789'') ! (d mod 10)"

function string_of_nat :: "nat \<Rightarrow> string" where
  "string_of_nat n = (if n < 10 then [digit_char n] else string_of_nat (n div 10) @ [digit_char n])"
  by pat_completeness auto
termination
  by (relation "measure id") auto

declare string_of_nat.simps [simp del]

text \<open>
  \<^verbatim>\<open>s.replace(pat, rep)\<close> with a string pattern: the first occurrence of \<open>pat\<close> is
  replaced, a string without an occurrence is returned as it is.
\<close>

fun replace_first :: "string \<Rightarrow> string \<Rightarrow> string \<Rightarrow> string" where
  "replace_first pat rep [] = (if pat = [] then rep else [])"
| "replace_first pat rep (c # cs) =
     (if prefix pat (c # cs) then rep @ drop (length pat) (c # cs)
      else c # replace_first pat rep cs)"

section \<open>Menu (src/src/menu.js)\<close>

text \<open>
  A generator is application code that receives \<^verbatim>\<open>(ctx, range, payload)\<close>. What the
  menu sees of it is the calls it makes on the range, in order, and whether it throws
  after them.
\<close>

type_synonym ('u, 'p) generator = "'u ctx \<Rightarrow> 'p option \<Rightarrow> ('u, 'p) range_call list \<times> error option"

text \<open>
  A Menu. \<open>m_dynamicGenerators\<close> and \<open>m_temporaryButtons\<close> are the private fields
  \<^verbatim>\<open>#_dynamicGenerators\<close> and \<^verbatim>\<open>#_temporaryButtons\<close> (\<open>None\<close> is \<^verbatim>\<open>null\<close>); \<open>m_frozen\<close>
  records \<^verbatim>\<open>Object.freeze\<close> on the menu object. The caption and its format are read only
  by \<^verbatim>\<open>update()\<close> and are left out.

  Buttons are embedded by value. In the source the buttons of the static grid are
  shared with the grid in \<open>m_temporaryButtons\<close>; the only fields written after
  construction are the two flags, and \<^verbatim>\<open>evaluateAll\<close> recomputes both from the predicate
  for every button it reaches, so the copy in \<open>m_temporaryButtons\<close> carries them. The
  two differ in one situation only: when a predicate throws, \<^verbatim>\<open>evaluateAll\<close> stops, and a
  button of the static grid that it did not reach keeps, in the source, the flags of the
  last pass that reached it, while its copy here has the flags of the static grid. No
  property below is stated about the flags of the buttons after a throwing predicate.
\<close>

record ('u, 'p) menu =
  m_menuId :: string
  m_buttons :: "('u, 'p) button_manager"
  m_parentMenuId :: "string option"
  m_frozen :: bool
  m_dynamicGenerators :: "(string \<times> ('u, 'p) generator) list"
  m_temporaryButtons :: "('u, 'p) button_manager option"

definition Menu :: "string option \<Rightarrow> error + ('u, 'p) menu" where
  "Menu menuId =
     (if \<not> truthy menuId then Inl (Error ''Menu ID is required.'')
      else Inr \<lparr>m_menuId = the menuId, m_buttons = ButtonManager, m_parentMenuId = None,
                m_frozen = False, m_dynamicGenerators = [], m_temporaryButtons = None\<rparr>)"

text \<open>
  The builder methods. Each returns the menu as the call left it and the exception it
  threw, if any.
\<close>

definition on_buttons ::
  "(('u, 'p) button_manager \<times> error option) \<times> entropy \<Rightarrow> ('u, 'p) menu \<Rightarrow> (('u, 'p) menu \<times> error option) \<times> entropy" where
  "on_buttons r m = (case r of ((bm, x), e) \<Rightarrow> ((m\<lparr>m_buttons := bm\<rparr>, x), e))"

definition Menu_text ::
  "'u label \<Rightarrow> ('u, 'p) callback option \<Rightarrow> ('u, 'p) requirement_arg option
     \<Rightarrow> ('u, 'p) menu \<Rightarrow> entropy \<Rightarrow> (('u, 'p) menu \<times> error option) \<times> entropy" where
  "Menu_text lbl mw req m e = on_buttons (append_built (text_button lbl mw req e) (m_buttons m)) m"

definition Menu_url ::
  "'u label \<Rightarrow> string \<Rightarrow> ('u, 'p) requirement_arg option
     \<Rightarrow> ('u, 'p) menu \<Rightarrow> entropy \<Rightarrow> (('u, 'p) menu \<times> error option) \<times> entropy" where
  "Menu_url lbl u req m e = on_buttons (append_built (url_button lbl u req e) (m_buttons m)) m"

definition Menu_webApp ::
  "'u label \<Rightarrow> string \<Rightarrow> ('u, 'p) requirement_arg option
     \<Rightarrow> ('u, 'p) menu \<Rightarrow> entropy \<Rightarrow> (('u, 'p) menu \<times> error option) \<times> entropy" where
  "Menu_webApp lbl u req m e = on_buttons (append_built (webApp_button lbl u req e) (m_buttons m)) m"

definition placeholder_button :: "string \<Rightarrow> entropy \<Rightarrow> (error + ('u, 'p) button) \<times> entropy" where
  "placeholder_button dynamicId e =
     Button (Literal (''__placeholder_'' @ dynamicId @ ''__''))
       \<lparr>opt_type = Some Placeholder, opt_url = None, opt_middleware = None,
        opt_requirement = Some \<lparr>arg_require = None, arg_disable = None,
                                 arg_doWhenDisable = None, arg_hidden = Some True\<rparr>\<rparr> e"

text \<open>
  \<^verbatim>\<open>dynamic(generator)\<close>: the generator is pushed before the placeholder is added, so it
  stays registered when adding the placeholder throws.
\<close>

definition Menu_dynamic ::
  "('u, 'p) generator \<Rightarrow> ('u, 'p) menu \<Rightarrow> entropy \<Rightarrow> (('u, 'p) menu \<times> error option) \<times> entropy" where
  "Menu_dynamic generator m e =
     (let dynamicId = ''dynamic_'' @ string_of_nat (length (m_dynamicGenerators m));
          m1 = m\<lparr>m_dynamicGenerators := m_dynamicGenerators m @ [(dynamicId, generator)]\<rparr>
      in on_buttons (append_built (placeholder_button dynamicId e) (m_buttons m1)) m1)"

definition Menu_row :: "('u, 'p) menu \<Rightarrow> ('u, 'p) menu \<times> error option" where
  "Menu_row m =
     (case newRow (m_buttons m) of
        Inl err \<Rightarrow> (m, Some err)
      | Inr bm \<Rightarrow> (m\<lparr>m_buttons := bm\<rparr>, None))"


text \<open>
  \<^verbatim>\<open>back(label, menuId, payload)\<close> is \<^verbatim>\<open>this.text(label, closure)\<close> too. Its closure reads
  \<^verbatim>\<open>this.parentMenuId\<close> when it runs, not when it is built, so it keeps the menu it was
  built on: \<open>this\<close> is the address of that menu in the store.
\<close>

definition back_closure :: "addr \<Rightarrow> string option \<Rightarrow> ('u, 'p) payload_arg \<Rightarrow> ('u, 'p) callback" where
  "back_closure this menuId payload =
     (\<lambda>ctx menu current.
        case resolve_payload payload ctx menu current of
          Inl err \<Rightarrow> ([], Inl err)
        | Inr resolvedPayload \<Rightarrow> ([ParentNav this menuId resolvedPayload], Inr None))"

definition Menu_back ::
  "addr \<Rightarrow> 'u label \<Rightarrow> string option \<Rightarrow> ('u, 'p) payload_arg
     \<Rightarrow> ('u, 'p) menu \<Rightarrow> entropy \<Rightarrow> (('u, 'p) menu \<times> error option) \<times> entropy" where
  "Menu_back this lbl menuId payload m e =
     Menu_text lbl (Some (back_closure this menuId payload)) None m e"




subsection \<open>\<^verbatim>\<open>#evaluate\<close>\<close>

text \<open>
  First loop: every generator writes into a fresh manager through a fresh range, and
  the rows it leaves are stored under its id. \<^verbatim>\<open>generatedContent\<close> is a \<^verbatim>\<open>Map\<close>.
\<close>

fun run_generators ::
  "'u ctx \<Rightarrow> 'p option \<Rightarrow> (string \<times> ('u, 'p) generator) list
     \<Rightarrow> (string \<rightharpoonup> ('u, 'p) button js_array js_array) \<Rightarrow> entropy
     \<Rightarrow> ((string \<rightharpoonup> ('u, 'p) button js_array js_array) \<times> error option) \<times> entropy" where
  "run_generators ctx payload [] generatedContent e = ((generatedContent, None), e)"
| "run_generators ctx payload ((dynId, generator) # rest) generatedContent e =
     (case generator ctx payload of
        (calls, thrown) \<Rightarrow>
          (case MenuRange_calls calls ButtonManager e of
             ((tempManager, Some err), e1) \<Rightarrow> ((generatedContent, Some err), e1)
           | ((tempManager, None), e1) \<Rightarrow>
               (case thrown of
                  Some err \<Rightarrow> ((generatedContent, Some err), e1)
                | None \<Rightarrow>
                    run_generators ctx payload rest
                      (generatedContent(dynId \<mapsto> getButtons tempManager)) e1)))"

text \<open>Second loop, innermost first: the buttons of one generated row.\<close>

fun addButtons :: "('u, 'p) button list \<Rightarrow> ('u, 'p) button_manager \<Rightarrow> ('u, 'p) button_manager \<times> error option" where
  "addButtons [] t = (t, None)"
| "addButtons (b # bs) t =
     (case addButton b t of
        Inl err \<Rightarrow> (t, Some err)
      | Inr t1 \<Rightarrow> addButtons bs t1)"

text \<open>The generated rows of one slot; \<^verbatim>\<open>newRow\<close> between them, not after the last.\<close>

fun insert_dynamic :: "('u, 'p) button js_array list \<Rightarrow> ('u, 'p) button_manager \<Rightarrow> ('u, 'p) button_manager \<times> error option" where
  "insert_dynamic [] t = (t, None)"
| "insert_dynamic (dynRow # rest) t =
     (case addButtons (elems dynRow) t of
        (t1, Some err) \<Rightarrow> (t1, Some err)
      | (t1, None) \<Rightarrow>
          (if rest \<noteq> [] then
             (case newRow t1 of
                Inl err \<Rightarrow> (t1, Some err)
              | Inr t2 \<Rightarrow> insert_dynamic rest t2)
           else (t1, None)))"

definition dynamicId_of :: "string \<Rightarrow> string" where
  "dynamicId_of raw = replace_first ''__'' [] (replace_first ''__placeholder_'' [] raw)"

text \<open>One button of the static grid: a marker is replaced, anything else is added.\<close>

definition merge_button ::
  "(string \<rightharpoonup> ('u, 'p) button js_array js_array) \<Rightarrow> ('u, 'p) button \<Rightarrow> ('u, 'p) button_manager
     \<Rightarrow> ('u, 'p) button_manager \<times> error option" where
  "merge_button generatedContent button t =
     (if b_type button = Placeholder \<and> truthy (rawLabel button)
         \<and> prefix ''__placeholder_'' (the (rawLabel button)) then
        (case generatedContent (dynamicId_of (the (rawLabel button))) of
           None \<Rightarrow> (t, None)
         | Some dynamicButtons \<Rightarrow>
             (if elems dynamicButtons \<noteq> [] then insert_dynamic (elems dynamicButtons) t
              else (t, None)))
      else (case addButton button t of
              Inl err \<Rightarrow> (t, Some err)
            | Inr t1 \<Rightarrow> (t1, None)))"

fun merge_row ::
  "(string \<rightharpoonup> ('u, 'p) button js_array js_array) \<Rightarrow> ('u, 'p) button list \<Rightarrow> ('u, 'p) button_manager
     \<Rightarrow> ('u, 'p) button_manager \<times> error option" where
  "merge_row generatedContent [] t = (t, None)"
| "merge_row generatedContent (button # row) t =
     (case merge_button generatedContent button t of
        (t1, Some err) \<Rightarrow> (t1, Some err)
      | (t1, None) \<Rightarrow> merge_row generatedContent row t1)"

fun merge_rows ::
  "(string \<rightharpoonup> ('u, 'p) button js_array js_array) \<Rightarrow> ('u, 'p) button js_array list \<Rightarrow> ('u, 'p) button_manager
     \<Rightarrow> ('u, 'p) button_manager \<times> error option" where
  "merge_rows generatedContent [] t = (t, None)"
| "merge_rows generatedContent (row # rest) t =
     (case merge_row generatedContent (elems row) t of
        (t1, Some err) \<Rightarrow> (t1, Some err)
      | (t1, None) \<Rightarrow>
          (if rest \<noteq> [] then
             (case newRow t1 of
                Inl err \<Rightarrow> (t1, Some err)
              | Inr t2 \<Rightarrow> merge_rows generatedContent rest t2)
           else (t1, None)))"

text \<open>
  \<^verbatim>\<open>#evaluate()\<close>, with the context and payload it reads from the registry as
  arguments. \<^verbatim>\<open>#_temporaryButtons\<close> is assigned first and filled in place, so it holds
  whatever was built when an exception ends the method.
\<close>

definition evaluate ::
  "'u ctx \<Rightarrow> 'p option \<Rightarrow> ('u, 'p) menu \<Rightarrow> entropy \<Rightarrow> (('u, 'p) menu \<times> error option) \<times> entropy" where
  "evaluate ctx payload m e =
     (let originalButtons = getButtons (m_buttons m) in
      case run_generators ctx payload (m_dynamicGenerators m) Map.empty e of
        ((generatedContent, Some err), e1) \<Rightarrow>
          ((m\<lparr>m_temporaryButtons := Some ButtonManager\<rparr>, Some err), e1)
      | ((generatedContent, None), e1) \<Rightarrow>
          (case merge_rows generatedContent (elems originalButtons) ButtonManager of
             (t, Some err) \<Rightarrow> ((m\<lparr>m_temporaryButtons := Some t\<rparr>, Some err), e1)
           | (t, None) \<Rightarrow>
               (case evaluateAll ctx t of
                  (t', r) \<Rightarrow> ((m\<lparr>m_temporaryButtons := Some t'\<rparr>, r), e1))))"

text \<open>\<^verbatim>\<open>this.#_temporaryButtons || this.buttons\<close>\<close>

definition current_buttons :: "('u, 'p) menu \<Rightarrow> ('u, 'p) button_manager" where
  "current_buttons m = (case m_temporaryButtons m of Some t \<Rightarrow> t | None \<Rightarrow> m_buttons m)"

text \<open>\<^verbatim>\<open>toJSON(ctx)\<close>; \<open>getContext\<close> is what \<^verbatim>\<open>MenuManager.getContext()\<close> returns.\<close>

definition Menu_toJSON ::
  "'u ctx option \<Rightarrow> 'u ctx \<Rightarrow> ('u, 'p) menu \<Rightarrow> entropy \<Rightarrow> wire list list \<times> entropy" where
  "Menu_toJSON ctx getContext m e =
     (let context = (case ctx of Some c \<Rightarrow> c | None \<Rightarrow> getContext)
      in ButtonManager_toJSON context (current_buttons m) e)"


section \<open>MenuManager (src/unnamed/part_002, second class)\<close>

text \<open>
  \<^verbatim>\<open>#_menus\<close> is an object literal \<^verbatim>\<open>{}\<close> used as a dictionary. Its own properties are
  kept in the order they were created. A read \<^verbatim>\<open>obj[key]\<close> that finds no own property
  continues in \<^verbatim>\<open>Object.prototype\<close>, whose members are all truthy.
\<close>

definition object_prototype_keys :: "string list" where
  "object_prototype_keys =
     [''constructor'', ''hasOwnProperty'', ''isPrototypeOf'', ''propertyIsEnumerable'',
      ''toLocaleString'', ''toString'', ''valueOf'', ''__proto__'',
      ''__defineGetter__'', ''__defineSetter__'', ''__lookupGetter__'', ''__lookupSetter__'']"

datatype 'a js_prop = Own 'a | Inherited string | Undefined

definition get_prop :: "(string \<times> 'a) list \<Rightarrow> string \<Rightarrow> 'a js_prop" where
  "get_prop obj key =
     (case map_of obj key of
        Some v \<Rightarrow> Own v
      | None \<Rightarrow> if key \<in> set object_prototype_keys then Inherited key else Undefined)"

text \<open>
  \<^verbatim>\<open>for (const key in obj)\<close> visits the own properties whose key is an array index (the
  canonical decimal form of a number below \<open>2 ^ 32 - 1\<close>) first, in ascending numeric
  order, and then the others in creation order. The members of \<^verbatim>\<open>Object.prototype\<close> are
  not enumerable.
\<close>

definition digit_value :: "char \<Rightarrow> int" where
  "digit_value c = of_char c - 48"

definition is_digit :: "char \<Rightarrow> bool" where
  "is_digit c = (48 \<le> (of_char c :: int) \<and> (of_char c :: int) \<le> 57)"

definition int_of_digits :: "string \<Rightarrow> int" where
  "int_of_digits s = foldl (\<lambda>a c. 10 * a + digit_value c) 0 s"

definition is_array_index :: "string \<Rightarrow> bool" where
  "is_array_index s =
     (s \<noteq> [] \<and> list_all is_digit s \<and> (s = ''0'' \<or> hd s \<noteq> CHR ''0'')
      \<and> int_of_digits s < 4294967295)"

definition for_in_keys :: "(string \<times> 'a) list \<Rightarrow> string list" where
  "for_in_keys obj =
     sort_key int_of_digits (filter is_array_index (map fst obj))
     @ filter (\<lambda>k. \<not> is_array_index k) (map fst obj)"

text \<open>
  The static private fields of \<^verbatim>\<open>MenuManager\<close>, the store of menu objects, the
  environment's stream and the events so far. A menu is registered by reference.
\<close>

record ('u, 'p) world =
  mm_menus :: "(string \<times> addr) list"
  mm_context :: "'u ctx"
  mm_currentMessageId :: "int option"
  mm_mediaType :: string
  mm_payload :: "'p option"
  heap :: "addr \<Rightarrow> ('u, 'p) menu"
  w_entropy :: entropy
  w_events :: "event list"

subsection \<open>\<^verbatim>\<open>deepFreeze\<close>\<close>

text \<open>
  \<^verbatim>\<open>deepFreeze(obj)\<close> freezes \<open>obj\<close> and then every value of an enumerable own property
  that is an object and is not frozen yet. Private fields are not properties. The
  properties of a requirement object are functions and booleans; those of a Button are
  strings, functions, \<^verbatim>\<open>null\<close> and the requirement object; those of a row are Buttons;
  those of a manager are the array of rows; those of a Menu are \<^verbatim>\<open>menuId\<close>, \<^verbatim>\<open>buttons\<close>
  and \<^verbatim>\<open>parentMenuId\<close>.
\<close>

definition deepFreeze_requirement :: "('u, 'p) requirement \<Rightarrow> ('u, 'p) requirement" where
  "deepFreeze_requirement r = r\<lparr>req_frozen := True\<rparr>"

definition deepFreeze_button :: "('u, 'p) button \<Rightarrow> ('u, 'p) button" where
  "deepFreeze_button b =
     b\<lparr>b_frozen := True,
       b_requirement := (if req_frozen (b_requirement b) then b_requirement b
                         else deepFreeze_requirement (b_requirement b))\<rparr>"

definition deepFreeze_row :: "('u, 'p) button js_array \<Rightarrow> ('u, 'p) button js_array" where
  "deepFreeze_row row =
     row\<lparr>arr_frozen := True,
         elems := map (\<lambda>b. if b_frozen b then b else deepFreeze_button b) (elems row)\<rparr>"

definition deepFreeze_rows :: "('u, 'p) button js_array js_array \<Rightarrow> ('u, 'p) button js_array js_array" where
  "deepFreeze_rows rows =
     rows\<lparr>arr_frozen := True,
          elems := map (\<lambda>r. if arr_frozen r then r else deepFreeze_row r) (elems rows)\<rparr>"

definition deepFreeze_manager :: "('u, 'p) button_manager \<Rightarrow> ('u, 'p) button_manager" where
  "deepFreeze_manager bm =
     bm\<lparr>bm_frozen := True,
        bm_buttons := (if arr_frozen (bm_buttons bm) then bm_buttons bm
                       else deepFreeze_rows (bm_buttons bm))\<rparr>"

definition deepFreeze :: "('u, 'p) menu \<Rightarrow> ('u, 'p) menu" where
  "deepFreeze m =
     m\<lparr>m_frozen := True,
       m_buttons := (if bm_frozen (m_buttons m) then m_buttons m
                     else deepFreeze_manager (m_buttons m))\<rparr>"

subsection \<open>The static methods\<close>

text \<open>
  \<^verbatim>\<open>registerMenu(menuClass)\<close>. The argument is a menu of the store, so the type test at
  the top of the method passes. \<^verbatim>\<open>if (this.#_menus[id]) return\<close> is a property read.
\<close>

definition registerMenu :: "addr \<Rightarrow> ('u, 'p) world \<Rightarrow> ('u, 'p) world" where
  "registerMenu menuClass w =
     (let menuId = m_menuId (heap w menuClass) in
      case get_prop (mm_menus w) menuId of
        Own a \<Rightarrow> w
      | Inherited k \<Rightarrow> w
      | Undefined \<Rightarrow>
          w\<lparr>mm_menus := mm_menus w @ [(menuId, menuClass)],
            heap := (heap w)(menuClass := deepFreeze (heap w menuClass))\<rparr>)"

text \<open>
  \<^verbatim>\<open>getMenuById(menuId)\<close> returns what the property read found when that is truthy: a
  registered menu, or a member of \<^verbatim>\<open>Object.prototype\<close>.
\<close>

definition getMenuById :: "string \<Rightarrow> ('u, 'p) world \<Rightarrow> error + addr js_prop" where
  "getMenuById menuId w =
     (case get_prop (mm_menus w) menuId of
        Undefined \<Rightarrow> Inl (Error (''Menu with ID '' @ menuId @ '' does not exist.''))
      | found \<Rightarrow> Inr found)"

definition getMenus :: "('u, 'p) world \<Rightarrow> (string \<times> addr) list" where
  "getMenus w = mm_menus w"

text \<open>
  \<^verbatim>\<open>setContext(newContext, messageId = null, mediaType = null)\<close>: the two optional
  arguments are stored only when truthy (a number other than 0, a non-empty string).
\<close>

definition setContext ::
  "'u ctx \<Rightarrow> int option \<Rightarrow> string option \<Rightarrow> ('u, 'p) world \<Rightarrow> ('u, 'p) world" where
  "setContext newContext messageId mediaType w =
     (let w1 = w\<lparr>mm_context := newContext\<rparr>;
          w2 = (if messageId \<noteq> None \<and> messageId \<noteq> Some 0
                then w1\<lparr>mm_currentMessageId := messageId\<rparr> else w1)
      in (if truthy mediaType then w2\<lparr>mm_mediaType := the mediaType\<rparr> else w2))"

definition getContext :: "('u, 'p) world \<Rightarrow> 'u ctx" where
  "getContext w = mm_context w"

definition getCurrentMessageId :: "('u, 'p) world \<Rightarrow> int option" where
  "getCurrentMessageId w = mm_currentMessageId w"

definition getMediaType :: "('u, 'p) world \<Rightarrow> string" where
  "getMediaType w = mm_mediaType w"

definition setPayload :: "'p option \<Rightarrow> ('u, 'p) world \<Rightarrow> ('u, 'p) world" where
  "setPayload payload w = w\<lparr>mm_payload := payload\<rparr>"

definition getPayload :: "('u, 'p) world \<Rightarrow> 'p option" where
  "getPayload w = mm_payload w"

section \<open>Menu methods that use the registry\<close>

text \<open>
  \<^verbatim>\<open>register(submenu)\<close>: the assignment to \<^verbatim>\<open>submenu.parentMenuId\<close> throws in a module
  (strict mode) when the submenu is frozen.
\<close>

definition Menu_register :: "addr \<Rightarrow> addr \<Rightarrow> ('u, 'p) world \<Rightarrow> error option \<times> ('u, 'p) world" where
  "Menu_register this submenu w =
     (if m_frozen (heap w submenu)
      then (Some (TypeError ''Cannot assign to read only property parentMenuId''), w)
      else (None,
            registerMenu submenu
              (w\<lparr>heap := (heap w)(submenu :=
                    (heap w submenu)\<lparr>m_parentMenuId := Some (m_menuId (heap w this))\<rparr>)\<rparr>)))"

definition createMenuApi :: "addr option \<Rightarrow> addr \<Rightarrow> menu_api" where
  "createMenuApi targetMenu this = MenuApi (case targetMenu of Some t \<Rightarrow> t | None \<Rightarrow> this)"

text \<open>\<^verbatim>\<open>#evaluate()\<close> on a menu of the store.\<close>

definition Menu_evaluate :: "addr \<Rightarrow> ('u, 'p) world \<Rightarrow> error option \<times> ('u, 'p) world" where
  "Menu_evaluate this w =
     (case evaluate (getContext w) (getPayload w) (heap w this) (w_entropy w) of
        ((m, r), e) \<Rightarrow> (r, w\<lparr>heap := (heap w)(this := m), w_entropy := e\<rparr>))"

text \<open>
  \<^verbatim>\<open>ctx.callbackQuery?.message.message_id\<close>: \<^verbatim>\<open>undefined\<close> without a callback query, a
  \<^verbatim>\<open>TypeError\<close> for a callback query without a message.
\<close>

definition message_id_of :: "'u ctx \<Rightarrow> error + int option" where
  "message_id_of c =
     (case callbackQuery c of
        None \<Rightarrow> Inr None
      | Some q \<Rightarrow>
          (case cq_message q of
             None \<Rightarrow> Inl (TypeError ''Cannot read properties of undefined (reading message_id)'')
           | Some i \<Rightarrow> Inr (Some i)))"

text \<open>\<^verbatim>\<open>ctx.callbackQuery?.data\<close>\<close>

definition callback_data_of :: "'u ctx \<Rightarrow> string option" where
  "callback_data_of c = (case callbackQuery c of None \<Rightarrow> None | Some q \<Rightarrow> cq_data q)"

text \<open>
  The search loops of \<^verbatim>\<open>middleware()\<close>, innermost first. Each stops at the first button
  whose \<^verbatim>\<open>callbackData\<close> is strictly equal to the incoming string; the result names the
  menu and the position of the button.
\<close>

fun find_in_row :: "string \<Rightarrow> ('u, 'p) button list \<Rightarrow> nat \<Rightarrow> (nat \<times> ('u, 'p) button) option" where
  "find_in_row callbackData [] j = None"
| "find_in_row callbackData (button # row) j =
     (if b_callbackData button = Some callbackData then Some (j, button)
      else find_in_row callbackData row (Suc j))"

fun find_in_rows :: "string \<Rightarrow> ('u, 'p) button js_array list \<Rightarrow> nat \<Rightarrow> (nat \<times> nat \<times> ('u, 'p) button) option" where
  "find_in_rows callbackData [] i = None"
| "find_in_rows callbackData (row # rows) i =
     (case find_in_row callbackData (elems row) 0 of
        Some (j, button) \<Rightarrow> Some (i, j, button)
      | None \<Rightarrow> find_in_rows callbackData rows (Suc i))"

fun find_in_menus ::
  "(addr \<Rightarrow> ('u, 'p) menu) \<Rightarrow> addr list \<Rightarrow> string \<Rightarrow> (addr \<times> nat \<times> nat \<times> ('u, 'p) button) option" where
  "find_in_menus h [] callbackData = None"
| "find_in_menus h (menu # menus) callbackData =
     (case find_in_rows callbackData (elems (getButtons (current_buttons (h menu)))) 0 of
        Some (i, j, button) \<Rightarrow> Some (menu, i, j, button)
      | None \<Rightarrow> find_in_menus h menus callbackData)"

text \<open>The menus in the order \<^verbatim>\<open>for (const menuId in allMenus)\<close> visits them.\<close>

definition menus_in_order :: "(string \<times> addr) list \<Rightarrow> addr list" where
  "menus_in_order allMenus = map (\<lambda>menuId. the (map_of allMenus menuId)) (for_in_keys allMenus)"

text \<open>
  The handler mutates the flags of the button it was called on; the button is stored
  back at the place it was found.
\<close>

definition store_button :: "nat \<Rightarrow> nat \<Rightarrow> ('u, 'p) button \<Rightarrow> ('u, 'p) button_manager \<Rightarrow> ('u, 'p) button_manager" where
  "store_button i j b bm =
     bm\<lparr>bm_buttons := (bm_buttons bm)\<lparr>elems :=
          (elems (bm_buttons bm))[i := ((elems (bm_buttons bm)) ! i)\<lparr>elems :=
             (elems ((elems (bm_buttons bm)) ! i))[j := b]\<rparr>]\<rparr>\<rparr>"

definition store_current :: "nat \<Rightarrow> nat \<Rightarrow> ('u, 'p) button \<Rightarrow> ('u, 'p) menu \<Rightarrow> ('u, 'p) menu" where
  "store_current i j b m =
     (case m_temporaryButtons m of
        Some t \<Rightarrow> m\<lparr>m_temporaryButtons := Some (store_button i j b t)\<rparr>
      | None \<Rightarrow> m\<lparr>m_buttons := store_button i j b (m_buttons m)\<rparr>)"

definition emit :: "event list \<Rightarrow> ('u, 'p) world \<Rightarrow> ('u, 'p) world" where
  "emit evs w = w\<lparr>w_events := w_events w @ evs\<rparr>"

text \<open>
  \<^verbatim>\<open>menuId || parentMenuId\<close> as the property key that \<^verbatim>\<open>getMenuById\<close> then reads: a
  falsy \<^verbatim>\<open>menuId\<close> gives way to \<^verbatim>\<open>parentMenuId\<close>, and \<^verbatim>\<open>null\<close> is the key \<^verbatim>\<open>'null'\<close>.
\<close>

definition nav_target :: "string option \<Rightarrow> string option \<Rightarrow> string" where
  "nav_target menuId parentMenuId =
     (if truthy menuId then the menuId
      else (case parentMenuId of None \<Rightarrow> ''null'' | Some p \<Rightarrow> p))"

text \<open>
  \<^verbatim>\<open>nav(menuId, payload = null)\<close>. \<^verbatim>\<open>getMenuById\<close> throws for an unknown id before
  anything is written. Otherwise the payload is stored and \<^verbatim>\<open>update()\<close> is called on
  what was found; a member of \<^verbatim>\<open>Object.prototype\<close> has no such method, so that call
  throws after the payload was stored. \<^verbatim>\<open>update()\<close> is asynchronous and \<^verbatim>\<open>nav\<close> does not
  wait for it: the call is recorded as an event and its body, a render pass of that
  menu followed by an edit of the message through the framework, is not part of the
  embedding. \<^verbatim>\<open>update()\<close> reads the fields of the registry and writes none of them.
\<close>

definition Menu_nav :: "string \<Rightarrow> 'p option \<Rightarrow> ('u, 'p) world \<Rightarrow> error option \<times> ('u, 'p) world" where
  "Menu_nav menuId payload w =
     (case getMenuById menuId w of
        Inl err \<Rightarrow> (Some err, w)
      | Inr found \<Rightarrow>
          (let w1 = setPayload payload w in
           case found of
             Own menu \<Rightarrow> (None, emit [CallUpdate menu] w1)
           | other \<Rightarrow> (Some (TypeError ''menu.update is not a function''), w1)))"

text \<open>
  One call of a callback, on the object \<^verbatim>\<open>#createMenuApi(targetMenu)\<close> built:
  \<^verbatim>\<open>update: () => menu.update()\<close>, \<^verbatim>\<open>nav: (menuId, payload = null) => menu.nav(menuId, payload)\<close>,
  \<^verbatim>\<open>back: (menuId, payload = null) => menu.nav(menuId || menu.parentMenuId, payload)\<close>,
  with \<^verbatim>\<open>menu\<close> the target menu; and the call of the closure of \<^verbatim>\<open>Menu.back\<close>.
\<close>

definition menuApi_call ::
  "menu_api \<Rightarrow> 'p api_call \<Rightarrow> ('u, 'p) world \<Rightarrow> error option \<times> ('u, 'p) world" where
  "menuApi_call menuApi call w =
     (case call of
        ApiUpdate \<Rightarrow> (None, emit [CallUpdate (api_menu menuApi)] w)
      | ApiNav menuId payload \<Rightarrow> Menu_nav menuId payload w
      | ApiBack menuId payload \<Rightarrow>
          Menu_nav (nav_target menuId (m_parentMenuId (heap w (api_menu menuApi)))) payload w
      | ParentNav this menuId payload \<Rightarrow>
          Menu_nav (nav_target menuId (m_parentMenuId (heap w this))) payload w)"

text \<open>The calls of a callback in order; the first that throws ends them.\<close>

fun menuApi_calls ::
  "menu_api \<Rightarrow> 'p api_call list \<Rightarrow> ('u, 'p) world \<Rightarrow> error option \<times> ('u, 'p) world" where
  "menuApi_calls menuApi [] w = (None, w)"
| "menuApi_calls menuApi (call # calls) w =
     (case menuApi_call menuApi call w of
        (Some err, w1) \<Rightarrow> (Some err, w1)
      | (None, w1) \<Rightarrow> menuApi_calls menuApi calls w1)"

text \<open>
  A callback run to its end: \<open>Inl\<close> when it throws, by itself or in one of its calls,
  \<open>Inr\<close> with the value it returns otherwise.
\<close>

definition run_callback ::
  "('u, 'p) callback \<Rightarrow> 'u ctx \<Rightarrow> menu_api \<Rightarrow> ('u, 'p) world
     \<Rightarrow> (error + string option) \<times> ('u, 'p) world" where
  "run_callback f ctx menuApi w =
     (case f ctx menuApi (getPayload w) of
        (calls, result) \<Rightarrow>
          (case menuApi_calls menuApi calls w of
             (Some err, w1) \<Rightarrow> (Inl err, w1)
           | (None, w1) \<Rightarrow> (result, w1)))"

text \<open>
  \<^verbatim>\<open>handler(ctx, menuApi)\<close> of \<^verbatim>\<open>Button\<close> (src/src/button.js), stated here because the
  callbacks it runs act on the registry. The result is the button with its flags as
  \<^verbatim>\<open>evaluateRequirement\<close> left them and what the caller sees: \<open>Inl\<close> when the promise
  rejects, \<open>Inr\<close> with the returned value otherwise (\<open>None\<close> is \<^verbatim>\<open>undefined\<close>). The events
  are appended to those of the registry in the order they happen.
\<close>

definition handler ::
  "'u ctx \<Rightarrow> menu_api \<Rightarrow> ('u, 'p) button \<Rightarrow> ('u, 'p) world
     \<Rightarrow> (('u, 'p) button \<times> (error + string option)) \<times> ('u, 'p) world" where
  "handler ctx menuApi b w =
     (case evaluateRequirement ctx b of
        Inl err \<Rightarrow> ((b, Inl err), w)
      | Inr (b', checkRequirement) \<Rightarrow>
          (if checkRequirement \<and> b_middleware b' \<noteq> None then
             (case run_callback (the (b_middleware b')) ctx menuApi
                     (emit [CallMiddleware menuApi] w) of
                (Inr v, w1) \<Rightarrow> ((b', Inr v), w1)
              | (Inl err, w1) \<Rightarrow>
                  ((b', Inr None), emit [ConsoleError ''Error in middleware:'' err] w1))
           else if b_isDisable b' then
             (case run_callback (req_doWhenDisable (b_requirement b')) ctx menuApi
                     (emit [CallDoWhenDisable menuApi] w) of
                (Inr v, w1) \<Rightarrow> ((b', Inr v), w1)
              | (Inl err, w1) \<Rightarrow>
                  ((b', Inr None),
                   emit [ConsoleError ''Error in doWhenDisable middleware:'' err] w1))
           else ((b', Inr None), w)))"

text \<open>
  The function \<^verbatim>\<open>middleware()\<close> returns, applied to \<^verbatim>\<open>(ctx, next)\<close>. \<open>Some err\<close> is a
  rejected promise. \<^verbatim>\<open>ctx.answerCbQuery()\<close> and \<^verbatim>\<open>next()\<close> belong to the framework and
  are recorded as events; a rejection of the former is swallowed by \<^verbatim>\<open>.catch\<close>. The
  handler of the button that was found runs on the registry as the evaluation left it,
  and the button, with the flags the handler set, is stored back afterwards.
\<close>

definition middleware :: "addr \<Rightarrow> 'u ctx \<Rightarrow> ('u, 'p) world \<Rightarrow> error option \<times> ('u, 'p) world" where
  "middleware this c w =
     (let w1 = registerMenu this w in
      case message_id_of c of
        Inl err \<Rightarrow> (Some err, w1)
      | Inr messageId \<Rightarrow>
          (let w2 = setContext c messageId None w1 in
           case Menu_evaluate this w2 of
             (Some err, w3) \<Rightarrow> (Some err, w3)
           | (None, w3) \<Rightarrow>
               (if \<not> truthy (callback_data_of c) then (None, emit [CallNext] w3)
                else
                  (let callbackData = the (callback_data_of c) in
                   case find_in_menus (heap w3) (menus_in_order (getMenus w3)) callbackData of
                     None \<Rightarrow>
                       (None,
                        emit [ConsoleLog (''No button found for callback data: '' @ callbackData),
                              AnswerCbQuery, CallNext] w3)
                   | Some (foundMenu, i, j, foundButton) \<Rightarrow>
                       (case handler c (createMenuApi (Some foundMenu) this) foundButton w3 of
                          ((b, Inl err), w4) \<Rightarrow>
                            (Some err,
                             w4\<lparr>heap := (heap w4)(foundMenu :=
                                   store_current i j b (heap w4 foundMenu))\<rparr>)
                        | ((b, Inr v), w4) \<Rightarrow>
                            (None,
                             emit [AnswerCbQuery, CallNext]
                               (w4\<lparr>heap := (heap w4)(foundMenu :=
                                     store_current i j b (heap w4 foundMenu))\<rparr>)))))))"

section \<open>Notions used to state the properties\<close>

text \<open>The rows of a manager as plain lists.\<close>

definition rows_of :: "('u, 'p) button_manager \<Rightarrow> ('u, 'p) button list list" where
  "rows_of bm = map elems (elems (bm_buttons bm))"

text \<open>A sequence of calls of \<^verbatim>\<open>addButton\<close> and \<^verbatim>\<open>newRow\<close> on one manager.\<close>

datatype ('u, 'p) grid_call = Append "('u, 'p) button" | NewRow

fun grid_calls :: "('u, 'p) grid_call list \<Rightarrow> ('u, 'p) button_manager \<Rightarrow> ('u, 'p) button_manager \<times> error option" where
  "grid_calls [] bm = (bm, None)"
| "grid_calls (Append b # cs) bm =
     (case addButton b bm of Inl err \<Rightarrow> (bm, Some err) | Inr bm' \<Rightarrow> grid_calls cs bm')"
| "grid_calls (NewRow # cs) bm =
     (case newRow bm of Inl err \<Rightarrow> (bm, Some err) | Inr bm' \<Rightarrow> grid_calls cs bm')"

fun no_adjacent_empty :: "'a list list \<Rightarrow> bool" where
  "no_adjacent_empty (r1 # r2 # rs) = (\<not> (r1 = [] \<and> r2 = []) \<and> no_adjacent_empty (r2 # rs))"
| "no_adjacent_empty rs = True"

text \<open>An element that \<^verbatim>\<open>toJSON\<close> does not omit.\<close>

definition visible :: "('u, 'p) button \<Rightarrow> bool" where
  "visible b = (\<not> b_isHidden b \<and> b_type b \<noteq> Placeholder)"

text \<open>A manager none of whose arrays is frozen, with at least one row.\<close>

definition unfrozen_manager :: "('u, 'p) button_manager \<Rightarrow> bool" where
  "unfrozen_manager bm =
     (\<not> arr_frozen (bm_buttons bm) \<and> elems (bm_buttons bm) \<noteq> []
      \<and> list_all (\<lambda>r. \<not> arr_frozen r) (elems (bm_buttons bm)))"

text \<open>
  What the constructor establishes and \<^verbatim>\<open>addButton\<close> and \<^verbatim>\<open>newRow\<close> keep: only the
  last row can be empty.
\<close>

definition grid_inv :: "('u, 'p) button_manager \<Rightarrow> bool" where
  "grid_inv bm = (unfrozen_manager bm \<and> [] \<notin> set (butlast (rows_of bm)))"

text \<open>
  The splice of generated rows into the static grid, as a function on lists. A grid
  fragment is a non-empty list of rows; \<open>glue\<close> puts one fragment after another on the
  same line, so the last row of the first and the first row of the second become one
  row. An element is the fragment of one row holding it, a marker is the fragment of the
  rows recorded for its slot (one empty row when there are none), a row of the static
  grid is its fragments glued in order, and the grid is its rows one after the other.
\<close>

definition nonempty_rows :: "'a list list \<Rightarrow> 'a list list" where
  "nonempty_rows rows = filter (\<lambda>r. r \<noteq> []) rows"

definition glue :: "'a list list \<Rightarrow> 'a list list \<Rightarrow> 'a list list" where
  "glue X Y =
     (if X = [] then Y else if Y = [] then X
      else butlast X @ [last X @ hd Y] @ tl Y)"

definition is_marker :: "('u, 'p) button \<Rightarrow> bool" where
  "is_marker b =
     (b_type b = Placeholder \<and> truthy (rawLabel b)
      \<and> prefix ''__placeholder_'' (the (rawLabel b)))"

definition fragment :: "(string \<rightharpoonup> ('u, 'p) button js_array js_array) \<Rightarrow> ('u, 'p) button \<Rightarrow> ('u, 'p) button list list" where
  "fragment generatedContent b =
     (if is_marker b then
        (case generatedContent (dynamicId_of (the (rawLabel b))) of
           None \<Rightarrow> [[]]
         | Some g \<Rightarrow> if elems g = [] then [[]] else map elems (elems g))
      else [[b]])"

definition splice_row :: "(string \<rightharpoonup> ('u, 'p) button js_array js_array) \<Rightarrow> ('u, 'p) button list \<Rightarrow> ('u, 'p) button list list" where
  "splice_row generatedContent row = foldr (\<lambda>b rest. glue (fragment generatedContent b) rest) row [[]]"

definition splice :: "(string \<rightharpoonup> ('u, 'p) button js_array js_array) \<Rightarrow> ('u, 'p) button list list \<Rightarrow> ('u, 'p) button list list" where
  "splice generatedContent rows = concat (map (splice_row generatedContent) rows)"

definition same_layout :: "'a list list \<Rightarrow> 'a list list \<Rightarrow> bool" where
  "same_layout R S =
     (R \<noteq> [] \<and> S \<noteq> [] \<and> nonempty_rows (butlast R) = nonempty_rows (butlast S) \<and> last R = last S)"









text \<open>
  The order in which the router looks at buttons, as a list: the menus in the given
  order, of each the grid \<open>current_buttons\<close> selects, rows top to bottom, columns left
  to right, each button with the menu and the position it is at.
\<close>

definition positions_in_rows :: "('u, 'p) button js_array list \<Rightarrow> nat \<Rightarrow> (nat \<times> nat \<times> ('u, 'p) button) list" where
  "positions_in_rows rows i =
     concat (map (\<lambda>(i, row). map (\<lambda>(j, b). (i, j, b)) (enumerate 0 (elems row)))
               (enumerate i rows))"

definition scan_order :: "(addr \<Rightarrow> ('u, 'p) menu) \<Rightarrow> addr list \<Rightarrow> (addr \<times> nat \<times> nat \<times> ('u, 'p) button) list" where
  "scan_order h menus =
     concat (map (\<lambda>a. map (\<lambda>(i, j, b). (a, i, j, b))
                        (positions_in_rows (elems (bm_buttons (current_buttons (h a)))) 0))
               menus)"

definition has_token :: "string \<Rightarrow> (addr \<times> nat \<times> nat \<times> ('u, 'p) button) \<Rightarrow> bool" where
  "has_token tok x = (case x of (a, i, j, b) \<Rightarrow> b_callbackData b = Some tok)"

text \<open>
  A menu as the builder leaves it before registration: no object of it is frozen. And a
  menu all of whose objects reachable through properties are frozen.
\<close>

definition unfrozen_button :: "('u, 'p) button \<Rightarrow> bool" where
  "unfrozen_button b = (\<not> b_frozen b \<and> \<not> req_frozen (b_requirement b))"

definition pristine_menu :: "('u, 'p) menu \<Rightarrow> bool" where
  "pristine_menu m =
     (\<not> m_frozen m \<and> \<not> bm_frozen (m_buttons m) \<and> unfrozen_manager (m_buttons m)
      \<and> list_all (\<lambda>r. list_all unfrozen_button (elems r)) (elems (bm_buttons (m_buttons m))))"

definition frozen_button :: "('u, 'p) button \<Rightarrow> bool" where
  "frozen_button b = (b_frozen b \<and> req_frozen (b_requirement b))"

definition deep_frozen :: "('u, 'p) menu \<Rightarrow> bool" where
  "deep_frozen m =
     (m_frozen m \<and> bm_frozen (m_buttons m) \<and> arr_frozen (bm_buttons (m_buttons m))
      \<and> list_all (\<lambda>r. arr_frozen r \<and> list_all frozen_button (elems r))
           (elems (bm_buttons (m_buttons m))))"

section \<open>Concrete inputs\<close>

text \<open>Small menus, buttons and registries on which the theorems below are exercised.\<close>

definition ex_ctx :: "unit ctx" where
  "ex_ctx = \<lparr>callbackQuery = None, ctx_state = ()\<rparr>"

definition ex_entropy :: entropy where
  "ex_entropy = (\<lambda>n. 10 + n)"

definition ex_failing :: "(unit, nat) requirement_arg" where
  "ex_failing =
     \<lparr>arg_require = Some (\<lambda>c. Inr False), arg_disable = Some True,
      arg_doWhenDisable = Some (\<lambda>c api p. ([], Inl (Error ''locked''))), arg_hidden = None\<rparr>"

definition ex_marker :: "(unit, nat) button" where
  "ex_marker = projr (fst (placeholder_button ''dynamic_0'' ex_entropy))"

definition ex_go :: "(unit, nat) button" where
  "ex_go =
     projr (fst (text_button (Literal ''Go'') (Some (\<lambda>c api p. ([], Inl (Error ''boom'')))) None ex_entropy))"

definition ex_locked :: "(unit, nat) button" where
  "ex_locked =
     projr (fst (text_button (Literal ''Pro'') (Some (\<lambda>c api p. ([], Inr None))) (Some ex_failing) ex_entropy))"

definition ex_locked_link :: "(unit, nat) button" where
  "ex_locked_link =
     projr (fst (url_button (Literal ''Docs'') ''https://example.org'' (Some ex_failing) ex_entropy))"

definition ex_empty_link :: "(unit, nat) button" where
  "ex_empty_link = projr (fst (url_button (Literal ''Docs'') [] None ex_entropy))"

definition ex_api :: menu_api where
  "ex_api = MenuApi 0"

definition ex_locked_link_evaluated :: "(unit, nat) button" where
  "ex_locked_link_evaluated = fst (projr (evaluateRequirement ex_ctx ex_locked_link))"

definition ex_hidden :: "(unit, nat) button" where
  "ex_hidden = ex_go\<lparr>b_isHidden := True\<rparr>"

definition ex_grid_calls :: "(unit, nat) grid_call list" where
  "ex_grid_calls = [NewRow, Append ex_go, NewRow, NewRow, Append ex_locked, NewRow]"

definition ex_manager :: "(unit, nat) button_manager" where
  "ex_manager =
     \<lparr>bm_buttons = \<lparr>elems = [\<lparr>elems = [ex_hidden, ex_marker], arr_frozen = False\<rparr>,
                              \<lparr>elems = [ex_empty_link, ex_hidden], arr_frozen = False\<rparr>,
                              \<lparr>elems = [], arr_frozen = False\<rparr>], arr_frozen = False\<rparr>,
      bm_frozen = False\<rparr>"

definition ex_bare :: "(nat, nat) menu" where
  "ex_bare = projr (Menu (Some ''root''))"

definition ex_stale_world :: "(nat, nat) world" where
  "ex_stale_world =
     \<lparr>mm_menus = [], mm_context = \<lparr>callbackQuery = None, ctx_state = 1\<rparr>,
      mm_currentMessageId = Some 5, mm_mediaType = ''media'', mm_payload = Some 7,
      heap = (\<lambda>a. ex_bare), w_entropy = ex_entropy, w_events = []\<rparr>"







definition ex_B :: "(unit, nat) button" where
  "ex_B = projr (fst (text_button (Literal ''B'') None None (snd (draw ex_entropy))))"



definition ex_sub_menu :: "(unit, nat) menu" where
  "ex_sub_menu =
     fst (fst (Menu_text (Literal ''Go'') (Some (\<lambda>c api p. ([], Inl (Error ''boom'')))) None
                 (projr (Menu (Some ''sub''))) ex_entropy))"

definition ex_root_menu :: "(unit, nat) menu" where
  "ex_root_menu =
     fst (fst (Menu_text (Literal ''B'') None None (projr (Menu (Some ''root'')))
                 (snd (draw ex_entropy))))"

definition ex_fresh_world :: "(unit, nat) world" where
  "ex_fresh_world =
     \<lparr>mm_menus = [], mm_context = ex_ctx, mm_currentMessageId = None, mm_mediaType = ''text'',
      mm_payload = None, heap = (\<lambda>a. ex_sub_menu)(0 := ex_root_menu),
      w_entropy = ex_entropy, w_events = []\<rparr>"

definition ex_route_world :: "(unit, nat) world" where
  "ex_route_world = snd (Menu_register 0 (Suc 0) ex_fresh_world)"

definition ex_click :: "string \<Rightarrow> unit ctx" where
  "ex_click tok =
     \<lparr>callbackQuery = Some \<lparr>cq_message = Some 7, cq_data = Some tok\<rparr>, ctx_state = ()\<rparr>"

definition ex_B_frozen :: "(unit, nat) button" where
  "ex_B_frozen = deepFreeze_button ex_B"

definition ex_go_frozen :: "(unit, nat) button" where
  "ex_go_frozen = deepFreeze_button ex_go"

definition ex_rendered_world :: "string \<Rightarrow> (unit, nat) world" where
  "ex_rendered_world tok =
     snd (Menu_evaluate 0 (setContext (ex_click tok) (Some 7) None (registerMenu 0 ex_route_world)))"









section \<open>Properties of Button\<close>

lemma hex_digits_length: "length (hex_digits k n) = k"
  by (induction k arbitrary: n) auto

lemma hex_digits_16_nonempty: "hex_digits 16 n \<noteq> []"
  using hex_digits_length[of 16 n] by auto

lemmas button_builders =
  text_button_def url_button_def webApp_button_def placeholder_button_def Button_def
  build_requirement_def or_default_def to_bool_def generateCallbackData_def draw_def

lemmas ex_buttons =
  ex_marker_def ex_go_def ex_locked_def ex_locked_link_def ex_empty_link_def
  ex_failing_def ex_ctx_def ex_entropy_def ex_api_def

lemma text_button_result:
  "text_button lbl mw req e =
     (Inr \<lparr>b_labelSource = lbl, b_type = Action, b_url = None, b_middleware = mw,
           b_requirement = build_requirement req, b_isDisable = False, b_isHidden = False,
           b_callbackData = Some (hex_digits 16 (e 0)), b_frozen = False\<rparr>, snd (draw e))"
  by (simp add: text_button_def Button_def generateCallbackData_def draw_def)



lemma builders_Inr:
  "\<exists>b. fst (text_button lbl mw req e) = Inr b"
  "\<exists>b. fst (url_button lbl u req e) = Inr b"
  "\<exists>b. fst (webApp_button lbl u req e) = Inr b"
  "\<exists>b. fst (placeholder_button i e) = Inr b"
  by (simp_all add: button_builders split: prod.splits)

lemma evaluateRequirement_placeholder:
  "b_type b = Placeholder \<Longrightarrow> evaluateRequirement ctx b = Inr (b\<lparr>b_isHidden := True\<rparr>, False)"
  by (simp add: evaluateRequirement_def)

lemma evaluateRequirement_checked:
  "b_type b \<noteq> Placeholder \<Longrightarrow> req_require (b_requirement b) ctx = Inr check \<Longrightarrow>
   evaluateRequirement ctx b =
     Inr (b\<lparr>b_isDisable := (\<not> check \<and> req_disable (b_requirement b)),
            b_isHidden := (\<not> check \<and> req_hidden (b_requirement b))\<rparr>, check)"
  by (simp add: evaluateRequirement_def)

lemma evaluateRequirement_throws:
  "b_type b \<noteq> Placeholder \<Longrightarrow> req_require (b_requirement b) ctx = Inl err \<Longrightarrow>
   evaluateRequirement ctx b = Inl err"
  by (simp add: evaluateRequirement_def)

lemma Button_default_require:
  assumes "fst (Button lbl opts e) = Inr b0"
    and "case opt_requirement opts of None \<Rightarrow> True | Some a \<Rightarrow> arg_require a = None"
  shows "req_require (b_requirement b0) ctx = Inr True"
  using assms
  by (auto simp: Button_def build_requirement_def or_default_def
      split: option.splits prod.splits if_splits)

text \<open>
  C3. \<^verbatim>\<open>evaluateRequirement\<close> on a placeholder sets the hidden flag and returns false
  whatever the predicate is (even one that would throw), so the predicate is not
  consulted. On any other kind, with the predicate returning \<open>check\<close>, it sets
  \<open>isDisable\<close> to "failed and \<open>disable\<close>", \<open>isHidden\<close> to "failed and \<open>hidden\<close>", changes
  nothing else and returns \<open>check\<close>. A button constructed without a predicate has the
  predicate that always returns true.
\<close>

theorem evaluateRequirement_claim:
  "(b_type b = Placeholder \<longrightarrow>
      evaluateRequirement ctx b = Inr (b\<lparr>b_isHidden := True\<rparr>, False))
   \<and> (b_type b \<noteq> Placeholder \<longrightarrow> req_require (b_requirement b) ctx = Inr check \<longrightarrow>
      evaluateRequirement ctx b =
        Inr (b\<lparr>b_isDisable := (\<not> check \<and> req_disable (b_requirement b)),
               b_isHidden := (\<not> check \<and> req_hidden (b_requirement b))\<rparr>, check))
   \<and> (fst (Button lbl opts e) = Inr b0 \<longrightarrow>
        (case opt_requirement opts of None \<Rightarrow> True | Some a \<Rightarrow> arg_require a = None) \<longrightarrow>
        req_require (b_requirement b0) ctx = Inr True)"
  using evaluateRequirement_placeholder evaluateRequirement_checked Button_default_require
  by blast

theorem evaluateRequirement_claim_witness:
  "evaluateRequirement ex_ctx ex_marker = Inr (ex_marker\<lparr>b_isHidden := True\<rparr>, False)
   \<and> evaluateRequirement ex_ctx ex_locked =
       Inr (ex_locked\<lparr>b_isDisable := True, b_isHidden := False\<rparr>, False)
   \<and> req_require (b_requirement ex_go) ex_ctx = Inr True"
  using evaluateRequirement_claim[of ex_marker ex_ctx False "Literal ''Go''"
          "\<lparr>opt_type = Some Action, opt_url = None,
            opt_middleware = Some (\<lambda>c api p. ([], Inl (Error ''boom''))), opt_requirement = None\<rparr>"
          ex_entropy ex_go]
        evaluateRequirement_claim[of ex_locked ex_ctx False "Literal ''Go''"
          "\<lparr>opt_type = Some Action, opt_url = None,
            opt_middleware = Some (\<lambda>c api p. ([], Inl (Error ''boom''))), opt_requirement = None\<rparr>"
          ex_entropy ex_go]
  by (simp add: ex_buttons button_builders)

lemma evaluateRequirement_fields:
  assumes "evaluateRequirement ctx b = Inr (b', check)"
  shows "b_middleware b' = b_middleware b" "b_requirement b' = b_requirement b"
    "b_callbackData b' = b_callbackData b" "b_type b' = b_type b" "b_url b' = b_url b"
    "b_labelSource b' = b_labelSource b" "b_frozen b' = b_frozen b"
  using assms by (auto simp: evaluateRequirement_def split: if_splits sum.splits)

lemma evaluateRequirement_passed:
  "evaluateRequirement ctx b = Inr (b', True) \<Longrightarrow> \<not> b_isDisable b'"
  by (auto simp: evaluateRequirement_def split: if_splits sum.splits)

lemma emit_fields:
  "mm_context (emit evs w) = mm_context w"
  "mm_currentMessageId (emit evs w) = mm_currentMessageId w"
  "mm_mediaType (emit evs w) = mm_mediaType w"
  "mm_payload (emit evs w) = mm_payload w"
  "mm_menus (emit evs w) = mm_menus w"
  "heap (emit evs w) = heap w"
  "w_entropy (emit evs w) = w_entropy w"
  "w_events (emit evs w) = w_events w @ evs"
  by (simp_all add: emit_def)

lemma Menu_nav_fields:
  "mm_context (snd (Menu_nav menuId payload w)) = mm_context w"
  "mm_currentMessageId (snd (Menu_nav menuId payload w)) = mm_currentMessageId w"
  "mm_mediaType (snd (Menu_nav menuId payload w)) = mm_mediaType w"
  "mm_menus (snd (Menu_nav menuId payload w)) = mm_menus w"
  "heap (snd (Menu_nav menuId payload w)) = heap w"
  "w_entropy (snd (Menu_nav menuId payload w)) = w_entropy w"
  "mm_payload (snd (Menu_nav menuId payload w))
     = (if get_prop (mm_menus w) menuId = Undefined then mm_payload w else payload)"
  "w_events (snd (Menu_nav menuId payload w))
     = w_events w @ (case get_prop (mm_menus w) menuId of Own a \<Rightarrow> [CallUpdate a] | other \<Rightarrow> [])"
  by (simp_all add: Menu_nav_def getMenuById_def setPayload_def emit_def Let_def
      split: js_prop.splits)

lemma Menu_nav_result:
  "fst (Menu_nav menuId payload w) =
     (case get_prop (mm_menus w) menuId of
        Own a \<Rightarrow> None
      | Inherited k \<Rightarrow> Some (TypeError ''menu.update is not a function'')
      | Undefined \<Rightarrow> Some (Error (''Menu with ID '' @ menuId @ '' does not exist.'')))"
  by (simp add: Menu_nav_def getMenuById_def Let_def split: js_prop.splits)



lemma menuApi_call_events:
  "\<exists>updated. w_events (snd (menuApi_call api call w)) = w_events w @ map CallUpdate updated"
proof -
  have nav: "\<exists>updated. w_events (snd (Menu_nav i p w)) = w_events w @ map CallUpdate updated"
    for i and p :: "'b option" and w :: "('a, 'b) world"
  proof (cases "get_prop (mm_menus w) i")
    case (Own a)
    then have "w_events (snd (Menu_nav i p w)) = w_events w @ map CallUpdate [a]"
      by (simp add: Menu_nav_fields)
    then show ?thesis by blast
  next
    case (Inherited k)
    then have "w_events (snd (Menu_nav i p w)) = w_events w @ map CallUpdate []"
      by (simp add: Menu_nav_fields)
    then show ?thesis by blast
  next
    case Undefined
    then have "w_events (snd (Menu_nav i p w)) = w_events w @ map CallUpdate []"
      by (simp add: Menu_nav_fields)
    then show ?thesis by blast
  qed
  show ?thesis
  proof (cases call)
    case ApiUpdate
    then have "w_events (snd (menuApi_call api call w)) = w_events w @ map CallUpdate [api_menu api]"
      by (simp add: menuApi_call_def emit_fields)
    then show ?thesis by blast
  next
    case (ApiNav i p)
    then show ?thesis using nav[of i p w] by (simp add: menuApi_call_def)
  next
    case (ApiBack i p)
    then show ?thesis
      using nav[of "nav_target i (m_parentMenuId (heap w (api_menu api)))" p w]
      by (simp add: menuApi_call_def)
  next
    case (ParentNav x i p)
    then show ?thesis
      using nav[of "nav_target i (m_parentMenuId (heap w x))" p w]
      by (simp add: menuApi_call_def)
  qed
qed



lemma menuApi_calls_events:
  "\<exists>updated. w_events (snd (menuApi_calls api calls w)) = w_events w @ map CallUpdate updated"
proof (induction calls arbitrary: w)
  case Nil
  have "w_events (snd (menuApi_calls api [] w)) = w_events w @ map CallUpdate []"
    by simp
  then show ?case by blast
next
  case (Cons call calls)
  obtain r w1 where c: "menuApi_call api call w = (r, w1)"
    by (cases "menuApi_call api call w")
  obtain u1 where u1: "w_events w1 = w_events w @ map CallUpdate u1"
    using menuApi_call_events[of api call w] c by auto
  show ?case
  proof (cases r)
    case (Some err)
    then have "w_events (snd (menuApi_calls api (call # calls) w)) = w_events w @ map CallUpdate u1"
      using c u1 by simp
    then show ?thesis by blast
  next
    case None
    then have s: "menuApi_calls api (call # calls) w = menuApi_calls api calls w1"
      using c by simp
    obtain u2 where "w_events (snd (menuApi_calls api calls w1)) = w_events w1 @ map CallUpdate u2"
      using Cons.IH[of w1] by blast
    then have "w_events (snd (menuApi_calls api (call # calls) w))
                 = w_events w @ map CallUpdate (u1 @ u2)"
      using u1 s by simp
    then show ?thesis by blast
  qed
qed

lemma run_callback_world:
  "snd (run_callback f ctx api w) = snd (menuApi_calls api (fst (f ctx api (getPayload w))) w)"
  by (simp add: run_callback_def split: prod.splits option.splits)

lemma run_callback_silent:
  "fst (f ctx api (getPayload w)) = [] \<Longrightarrow>
   run_callback f ctx api w = (snd (f ctx api (getPayload w)), w)"
  by (cases "f ctx api (getPayload w)") (simp add: run_callback_def)

lemma run_callback_events:
  "\<exists>updated. w_events (snd (run_callback f ctx api w)) = w_events w @ map CallUpdate updated"
  unfolding run_callback_world by (rule menuApi_calls_events)

text \<open>
  C7. \<^verbatim>\<open>handler\<close> first runs \<^verbatim>\<open>evaluateRequirement\<close> and keeps the flags it set. When the
  predicate returned normally the promise never rejects: if the check passed, the
  action (when the button has one) is called exactly once and a failure of it, or of a
  call it makes on the api, is logged and swallowed; otherwise, if the button is now
  disabled, the same holds for \<^verbatim>\<open>doWhenDisable\<close>; otherwise nothing is called. The events
  the handler adds are that one call, the calls of \<^verbatim>\<open>update()\<close> the callback caused, and
  the logged failure.
\<close>

theorem handler_claim:
  assumes "evaluateRequirement ctx b = Inr (b', check)"
  shows
   "handler ctx api b w =
      (if check then
         (case b_middleware b of
            None \<Rightarrow> ((b', Inr None), w)
          | Some action \<Rightarrow>
              (case run_callback action ctx api (emit [CallMiddleware api] w) of
                 (Inr v, w1) \<Rightarrow> ((b', Inr v), w1)
               | (Inl err, w1) \<Rightarrow>
                   ((b', Inr None), emit [ConsoleError ''Error in middleware:'' err] w1)))
       else if b_isDisable b' then
         (case run_callback (req_doWhenDisable (b_requirement b)) ctx api
                 (emit [CallDoWhenDisable api] w) of
            (Inr v, w1) \<Rightarrow> ((b', Inr v), w1)
          | (Inl err, w1) \<Rightarrow>
              ((b', Inr None), emit [ConsoleError ''Error in doWhenDisable middleware:'' err] w1))
       else ((b', Inr None), w))
    \<and> (\<exists>v. snd (fst (handler ctx api b w)) = Inr v)
    \<and> (\<exists>updated. w_events (snd (handler ctx api b w)) = w_events w @
         (if check then
            (case b_middleware b of
               None \<Rightarrow> []
             | Some action \<Rightarrow>
                 CallMiddleware api # map CallUpdate updated @
                   (case fst (run_callback action ctx api (emit [CallMiddleware api] w)) of
                      Inr v \<Rightarrow> []
                    | Inl err \<Rightarrow> [ConsoleError ''Error in middleware:'' err]))
          else if b_isDisable b' then
            CallDoWhenDisable api # map CallUpdate updated @
              (case fst (run_callback (req_doWhenDisable (b_requirement b)) ctx api
                           (emit [CallDoWhenDisable api] w)) of
                 Inr v \<Rightarrow> []
               | Inl err \<Rightarrow> [ConsoleError ''Error in doWhenDisable middleware:'' err])
          else []))
    \<and> (fst (f ctx api (getPayload w)) = [] \<longrightarrow>
         run_callback f ctx api w = (snd (f ctx api (getPayload w)), w))"
proof -
  note fields = evaluateRequirement_fields(1,2)[OF assms]
  have passed: "check \<Longrightarrow> \<not> b_isDisable b'"
    using evaluateRequirement_passed[of ctx b b'] assms by simp
  let ?wm = "emit [CallMiddleware api] w"
  let ?wd = "emit [CallDoWhenDisable api] w"
  have silent: "fst (f ctx api (getPayload w)) = [] \<longrightarrow>
         run_callback f ctx api w = (snd (f ctx api (getPayload w)), w)"
    using run_callback_silent[of f ctx api w] by blast
  show ?thesis
  proof (cases "check \<and> b_middleware b \<noteq> None")
    case True
    then obtain action where action: "b_middleware b = Some action" and check: check
      by auto
    obtain res w1 where run: "run_callback action ctx api ?wm = (res, w1)"
      by (cases "run_callback action ctx api ?wm")
    obtain updated where up: "w_events w1 = w_events w @ CallMiddleware api # map CallUpdate updated"
      using run_callback_events[of action ctx api ?wm] run by (auto simp: emit_fields)
    show ?thesis
    proof (cases res)
      case (Inr v)
      have h: "handler ctx api b w = ((b', Inr v), w1)"
        using assms fields action check run Inr by (simp add: handler_def)
      have 1: "\<exists>v. snd (fst (handler ctx api b w)) = Inr v"
        by (simp add: h)
      have "w_events (snd (handler ctx api b w)) = w_events w @
              CallMiddleware api # map CallUpdate updated @ []"
        using h up by simp
      then have 2: "\<exists>updated. w_events (snd (handler ctx api b w)) = w_events w @
              CallMiddleware api # map CallUpdate updated @ []"
        by blast
      show ?thesis
        using h 1 2 silent action check run Inr by simp
    next
      case (Inl err)
      have h: "handler ctx api b w
                 = ((b', Inr None), emit [ConsoleError ''Error in middleware:'' err] w1)"
        using assms fields action check run Inl by (simp add: handler_def)
      have 1: "\<exists>v. snd (fst (handler ctx api b w)) = Inr v"
        by (simp add: h)
      have "w_events (snd (handler ctx api b w)) = w_events w @
              CallMiddleware api # map CallUpdate updated
                @ [ConsoleError ''Error in middleware:'' err]"
        using h up by (simp add: emit_fields)
      then have 2: "\<exists>updated. w_events (snd (handler ctx api b w)) = w_events w @
              CallMiddleware api # map CallUpdate updated
                @ [ConsoleError ''Error in middleware:'' err]"
        by blast
      show ?thesis
        using h 1 2 silent action check run Inl by simp
    qed
  next
    case False
    show ?thesis
    proof (cases "b_isDisable b'")
      case True
      then have nc: "\<not> check" using passed by auto
      obtain res w1 where run:
        "run_callback (req_doWhenDisable (b_requirement b)) ctx api ?wd = (res, w1)"
        by (cases "run_callback (req_doWhenDisable (b_requirement b)) ctx api ?wd")
      obtain updated where up:
        "w_events w1 = w_events w @ CallDoWhenDisable api # map CallUpdate updated"
        using run_callback_events[of "req_doWhenDisable (b_requirement b)" ctx api ?wd] run
        by (auto simp: emit_fields)
      show ?thesis
      proof (cases res)
        case (Inr v)
        have h: "handler ctx api b w = ((b', Inr v), w1)"
          using assms fields nc True run Inr by (simp add: handler_def)
        have 1: "\<exists>v. snd (fst (handler ctx api b w)) = Inr v"
          by (simp add: h)
        have "w_events (snd (handler ctx api b w)) = w_events w @
                CallDoWhenDisable api # map CallUpdate updated @ []"
          using h up by simp
        then have 2: "\<exists>updated. w_events (snd (handler ctx api b w)) = w_events w @
                CallDoWhenDisable api # map CallUpdate updated @ []"
          by blast
        show ?thesis
          using h 1 2 silent nc True run Inr by simp
      next
        case (Inl err)
        have h: "handler ctx api b w
                   = ((b', Inr None),
                      emit [ConsoleError ''Error in doWhenDisable middleware:'' err] w1)"
          using assms fields nc True run Inl by (simp add: handler_def)
        have 1: "\<exists>v. snd (fst (handler ctx api b w)) = Inr v"
          by (simp add: h)
        have "w_events (snd (handler ctx api b w)) = w_events w @
                CallDoWhenDisable api # map CallUpdate updated
                  @ [ConsoleError ''Error in doWhenDisable middleware:'' err]"
          using h up by (simp add: emit_fields)
        then have 2: "\<exists>updated. w_events (snd (handler ctx api b w)) = w_events w @
                CallDoWhenDisable api # map CallUpdate updated
                  @ [ConsoleError ''Error in doWhenDisable middleware:'' err]"
          by blast
        show ?thesis
          using h 1 2 silent nc True run Inl by simp
      qed
    next
      case nd: False
      have h: "handler ctx api b w = ((b', Inr None), w)"
        using assms fields False nd by (auto simp: handler_def)
      show ?thesis
        using h silent False nd by (auto split: option.splits)
    qed
  qed
qed

theorem handler_claim_witness:
  "evaluateRequirement ex_ctx ex_go = Inr (ex_go, True)
   \<and> handler ex_ctx ex_api ex_go ex_fresh_world =
       ((ex_go, Inr None),
        emit [CallMiddleware ex_api, ConsoleError ''Error in middleware:'' (Error ''boom'')]
          ex_fresh_world)
   \<and> evaluateRequirement ex_ctx ex_locked = Inr (ex_locked\<lparr>b_isDisable := True\<rparr>, False)
   \<and> handler ex_ctx ex_api ex_locked ex_fresh_world =
       ((ex_locked\<lparr>b_isDisable := True\<rparr>, Inr None),
        emit [CallDoWhenDisable ex_api,
              ConsoleError ''Error in doWhenDisable middleware:'' (Error ''locked'')]
          ex_fresh_world)"
proof -
  have h: "evaluateRequirement ex_ctx ex_go = Inr (ex_go, True)"
    by (simp add: evaluateRequirement_def ex_buttons button_builders)
  have k: "evaluateRequirement ex_ctx ex_locked = Inr (ex_locked\<lparr>b_isDisable := True\<rparr>, False)"
    by (simp add: evaluateRequirement_def ex_buttons button_builders)
  have mw: "b_middleware ex_go = Some (\<lambda>c api p. ([], Inl (Error ''boom'')))"
    and dw: "req_doWhenDisable (b_requirement ex_locked) = (\<lambda>c api p. ([], Inl (Error ''locked'')))"
    by (simp_all add: ex_buttons button_builders)
  note c1 = handler_claim[OF h, of ex_api ex_fresh_world, THEN conjunct1]
  note c2 = handler_claim[OF k, of ex_api ex_fresh_world, THEN conjunct1]
  have a: "handler ex_ctx ex_api ex_go ex_fresh_world =
       ((ex_go, Inr None),
        emit [CallMiddleware ex_api, ConsoleError ''Error in middleware:'' (Error ''boom'')]
          ex_fresh_world)"
    using c1 by (simp add: mw run_callback_def emit_def)
  have b: "handler ex_ctx ex_api ex_locked ex_fresh_world =
       ((ex_locked\<lparr>b_isDisable := True\<rparr>, Inr None),
        emit [CallDoWhenDisable ex_api,
              ConsoleError ''Error in doWhenDisable middleware:'' (Error ''locked'')]
          ex_fresh_world)"
    using c2 by (simp add: dw run_callback_def emit_def)
  show ?thesis
    using h k a b by simp
qed

lemma toJSON_omitted:
  "b_isHidden b \<or> b_type b = Placeholder \<Longrightarrow> Button_toJSON ctx b e = (None, e)"
  by (auto simp: Button_toJSON_def)

lemma toJSON_disabled:
  assumes "\<not> b_isHidden b" "b_type b \<noteq> Placeholder" "b_isDisable b"
  shows "\<exists>tok e'. tok \<noteq> [] \<and>
           Button_toJSON ctx b e =
             (Some \<lparr>w_text = getLabel b ctx @ lock_marker, w_url = None,
                    w_callback_data = Some tok\<rparr>, e')"
proof (cases "truthy (b_callbackData b)")
  case True
  then obtain tok where "b_callbackData b = Some tok" "tok \<noteq> []"
    by (cases "b_callbackData b") auto
  with assms show ?thesis by (simp add: Button_toJSON_def)
next
  case False
  with assms show ?thesis
    by (simp add: Button_toJSON_def generateCallbackData_def draw_def hex_digits_16_nonempty)
qed

lemma toJSON_enabled:
  assumes "\<not> b_isHidden b" "b_type b \<noteq> Placeholder" "\<not> b_isDisable b"
  shows "Button_toJSON ctx b e =
           (Some \<lparr>w_text = getLabel b ctx,
                  w_url = (if truthy (b_url b) then b_url b else None),
                  w_callback_data = (if truthy (b_callbackData b) then b_callbackData b else None)\<rparr>, e)"
  using assms by (simp add: Button_toJSON_def)

lemma text_button_fields:
  assumes "fst (text_button lbl mw req e0) = Inr b0"
  shows "b_type b0 = Action" "b_url b0 = None" "b_callbackData b0 = Some (hex_digits 16 (e0 0))"
    "b_isDisable b0 = False" "b_isHidden b0 = False"
  using assms by (auto simp: button_builders split: prod.splits)

lemma link_button_fields:
  assumes "fst (url_button lbl u req e0) = Inr b0 \<or> fst (webApp_button lbl u req e0) = Inr b0"
  shows "b_type b0 \<noteq> Placeholder" "b_type b0 \<noteq> Action" "b_url b0 = Some u" "b_callbackData b0 = None"
  using assms by (auto simp: button_builders split: prod.splits)

text \<open>
  C2, as amended. A hidden element and a placeholder serialize to nothing, whatever the
  disabled flag. A disabled, visible element serializes to its label followed by the
  lock marker and a non-empty callback token, without url. Any other element built by
  the text method serializes to its label and its stored token, without url; one built
  by the url or webApp method serializes to its label without token, with its url when
  that url is a non-empty string and with the label alone otherwise.
\<close>

theorem toJSON_claim:
  assumes "b = b0\<lparr>b_isDisable := d, b_isHidden := h\<rparr>"
  shows
   "(h \<or> b_type b0 = Placeholder \<longrightarrow> Button_toJSON ctx b e = (None, e))
    \<and> (\<not> h \<and> b_type b0 \<noteq> Placeholder \<and> d \<longrightarrow>
         (\<exists>tok e'. tok \<noteq> [] \<and>
            Button_toJSON ctx b e =
              (Some \<lparr>w_text = getLabel b ctx @ lock_marker, w_url = None,
                     w_callback_data = Some tok\<rparr>, e')))
    \<and> (\<not> h \<and> \<not> d \<and> fst (text_button lbl mw req e0) = Inr b0 \<longrightarrow>
         b_callbackData b0 \<noteq> None \<and>
         Button_toJSON ctx b e =
           (Some \<lparr>w_text = getLabel b ctx, w_url = None,
                  w_callback_data = b_callbackData b0\<rparr>, e))
    \<and> (\<not> h \<and> \<not> d \<and>
         (fst (url_button lbl u req e0) = Inr b0 \<or> fst (webApp_button lbl u req e0) = Inr b0) \<longrightarrow>
         Button_toJSON ctx b e =
           (Some \<lparr>w_text = getLabel b ctx, w_url = (if u = [] then None else Some u),
                  w_callback_data = None\<rparr>, e))"
proof (intro conjI impI)
  assume "h \<or> b_type b0 = Placeholder"
  then show "Button_toJSON ctx b e = (None, e)"
    using toJSON_omitted[of b ctx e] assms by auto
next
  assume "\<not> h \<and> b_type b0 \<noteq> Placeholder \<and> d"
  then show "\<exists>tok e'. tok \<noteq> [] \<and>
            Button_toJSON ctx b e =
              (Some \<lparr>w_text = getLabel b ctx @ lock_marker, w_url = None,
                     w_callback_data = Some tok\<rparr>, e')"
    using toJSON_disabled[of b ctx e] assms by simp
next
  assume a: "\<not> h \<and> \<not> d \<and> fst (text_button lbl mw req e0) = Inr b0"
  then show "b_callbackData b0 \<noteq> None"
    using text_button_fields(3)[of lbl mw req e0 b0] by simp
next
  assume a: "\<not> h \<and> \<not> d \<and> fst (text_button lbl mw req e0) = Inr b0"
  then show "Button_toJSON ctx b e =
           (Some \<lparr>w_text = getLabel b ctx, w_url = None,
                  w_callback_data = b_callbackData b0\<rparr>, e)"
    using text_button_fields[of lbl mw req e0 b0] toJSON_enabled[of b ctx e] assms
      hex_digits_16_nonempty[of "e0 0"]
    by simp
next
  assume a: "\<not> h \<and> \<not> d \<and>
         (fst (url_button lbl u req e0) = Inr b0 \<or> fst (webApp_button lbl u req e0) = Inr b0)"
  then show "Button_toJSON ctx b e =
           (Some \<lparr>w_text = getLabel b ctx, w_url = (if u = [] then None else Some u),
                  w_callback_data = None\<rparr>, e)"
    using link_button_fields[of lbl u req e0 b0] toJSON_enabled[of b ctx e] assms
    by auto
qed

text \<open>
  The claim as stated fails for a link whose url is the empty string: it is neither
  hidden nor disabled, and its wire form has neither a url nor a callback token.
\<close>

theorem toJSON_claim_counterexample:
  "\<not> b_isHidden ex_empty_link \<and> \<not> b_isDisable ex_empty_link \<and> b_type ex_empty_link = Url
   \<and> fst (Button_toJSON ex_ctx ex_empty_link ex_entropy) =
       Some \<lparr>w_text = ''Docs'', w_url = None, w_callback_data = None\<rparr>"
  by (simp add: Button_toJSON_def getLabel_def ex_buttons button_builders)

theorem toJSON_claim_witness:
  "fst (url_button (Literal ''Docs'') [] None ex_entropy) = Inr ex_empty_link
   \<and> Button_toJSON ex_ctx ex_empty_link ex_entropy =
       (Some \<lparr>w_text = ''Docs'', w_url = None, w_callback_data = None\<rparr>, ex_entropy)
   \<and> Button_toJSON ex_ctx (ex_locked\<lparr>b_isDisable := True, b_isHidden := True\<rparr>) ex_entropy = (None, ex_entropy)"
  using toJSON_claim[where b = ex_empty_link and ?b0.0 = ex_empty_link and d = False
      and h = False and ctx = ex_ctx and e = ex_entropy and lbl = "Literal ''Docs''"
      and req = None and ?e0.0 = ex_entropy and u = "[]"]
    toJSON_claim[where b = "ex_locked\<lparr>b_isDisable := True, b_isHidden := True\<rparr>"
      and ?b0.0 = ex_locked and d = True and h = True and ctx = ex_ctx and e = ex_entropy]
  by (simp add: getLabel_def ex_buttons button_builders)

lemma hex_digits_numeral:
  "hex_digits (numeral k) n = hex_digits (pred_numeral k) (n div 16) @ [hex_char n]"
proof -
  have "hex_digits (Suc (pred_numeral k)) n = hex_digits (pred_numeral k) (n div 16) @ [hex_char n]"
    by (rule hex_digits.simps(2))
  moreover have "(numeral k :: nat) = Suc (pred_numeral k)"
    by (rule numeral_eq_Suc)
  ultimately show ?thesis by presburger
qed



lemma token_10: "hex_digits 16 10 = ''000000000000000a''"
  by (simp add: hex_digits_numeral hex_char_def)

lemma token_11: "hex_digits 16 11 = ''000000000000000b''"
  by (simp add: hex_digits_numeral hex_char_def)

lemma ex_locked_token: "b_callbackData ex_locked = Some ''000000000000000a''"
proof -
  have "b_callbackData ex_locked = Some (hex_digits 16 10)"
    by (simp add: ex_buttons button_builders)
  then show ?thesis by (simp only: token_10)
qed

lemma ex_locked_link_evaluated_eq:
  "ex_locked_link_evaluated = ex_locked_link\<lparr>b_isDisable := True\<rparr>"
  by (simp add: ex_locked_link_evaluated_def evaluateRequirement_def ex_buttons button_builders)

lemma ex_locked_link_evaluated_fields:
  "b_callbackData ex_locked_link_evaluated = None" "b_type ex_locked_link_evaluated = Url"
  "\<not> b_isHidden ex_locked_link_evaluated" "b_isDisable ex_locked_link_evaluated"
  "getLabel ex_locked_link_evaluated c = ''Docs''"
  by (simp_all add: ex_locked_link_evaluated_eq getLabel_def ex_buttons button_builders)

lemma ex_locked_fields:
  "b_type ex_locked = Action" "\<not> b_isHidden ex_locked" "getLabel ex_locked c = ''Pro''"
  by (simp_all add: getLabel_def ex_buttons button_builders)

lemma toJSON_locked_link:
  "fst (Button_toJSON c ex_locked_link_evaluated e) =
     Some \<lparr>w_text = ''Docs'' @ lock_marker, w_url = None,
           w_callback_data = Some (hex_digits 16 (e 0))\<rparr>"
  "snd (Button_toJSON c ex_locked_link_evaluated e) 0 = e (Suc 0)"
  by (simp_all add: ex_locked_link_evaluated_fields Button_toJSON_def
      generateCallbackData_def draw_def)

lemma getLabel_flags:
  "getLabel (b\<lparr>b_isDisable := d, b_isHidden := h\<rparr>) c = getLabel b c"
  "getLabel (b\<lparr>b_isDisable := d\<rparr>) c = getLabel b c"
  "getLabel (b\<lparr>b_isHidden := h\<rparr>) c = getLabel b c"
  by (simp_all add: getLabel_def)

lemma handler_rejects:
  "evaluateRequirement ctx b = Inl err \<Longrightarrow> handler ctx api b w = ((b, Inl err), w)"
  by (simp add: handler_def)

lemma handler_button:
  "evaluateRequirement ctx b = Inr (b', check) \<Longrightarrow> fst (fst (handler ctx api b w)) = b'"
  by (simp add: handler_def split: prod.splits sum.splits)

lemma handler_callbackData:
  "b_callbackData (fst (fst (handler ctx api b w))) = b_callbackData b"
proof (cases "evaluateRequirement ctx b")
  case (Inl err)
  then show ?thesis by (simp add: handler_rejects)
next
  case (Inr r)
  then obtain b' check where "evaluateRequirement ctx b = Inr (b', check)"
    by (cases r) auto
  then show ?thesis
    using handler_button[of ctx b b' check api w] evaluateRequirement_fields(3)[of ctx b b' check]
    by simp
qed

lemma toJSON_emits_stored:
  assumes "truthy (b_callbackData b)" "Button_toJSON ctx b e = (Some j, e')"
  shows "w_callback_data j = b_callbackData b \<and> e' = e"
  using assms by (auto simp: Button_toJSON_def split: if_splits)

text \<open>
  C9, as amended. An element built by the text method gets its identifier from one draw
  at construction: 16 hexadecimal digits. \<^verbatim>\<open>evaluateRequirement\<close> and \<^verbatim>\<open>handler\<close> leave
  it as it is. Whatever the flags, the context and the state of the environment, a
  serialization that emits anything emits exactly the stored identifier, reads nothing
  from the environment, and the emitted token is the key under which the search of the
  router finds the element.
\<close>

theorem identifier_claim:
  assumes "fst (text_button lbl mw req e0) = Inr b0"
    and "b = b0\<lparr>b_isDisable := d, b_isHidden := h\<rparr>"
  shows
   "b_callbackData b0 = Some (hex_digits 16 (e0 0)) \<and> length (hex_digits 16 (e0 0)) = 16
    \<and> (evaluateRequirement ctx b = Inr (b', check) \<longrightarrow> b_callbackData b' = b_callbackData b0)
    \<and> b_callbackData (fst (fst (handler ctx api b w))) = b_callbackData b0
    \<and> (Button_toJSON ctx b e = (Some j, e') \<longrightarrow>
          w_callback_data j = b_callbackData b0 \<and> e' = e
          \<and> find_in_row (the (w_callback_data j)) [b] 0 = Some (0, b))"
proof -
  have cb: "b_callbackData b0 = Some (hex_digits 16 (e0 0))"
    using text_button_fields(3)[OF assms(1)] .
  have len: "length (hex_digits 16 (e0 0)) = 16"
    by (rule hex_digits_length)
  have same: "b_callbackData b = b_callbackData b0"
    using assms(2) by simp
  have tr: "truthy (b_callbackData b)"
    using cb same hex_digits_16_nonempty[of "e0 0"] by simp
  have ev: "evaluateRequirement ctx b = Inr (b', check) \<longrightarrow> b_callbackData b' = b_callbackData b0"
    using evaluateRequirement_fields(3)[of ctx b b' check] same by simp
  have hd: "b_callbackData (fst (fst (handler ctx api b w))) = b_callbackData b0"
    using handler_callbackData[of ctx api b w] same by simp
  have js: "Button_toJSON ctx b e = (Some j, e') \<longrightarrow>
          w_callback_data j = b_callbackData b0 \<and> e' = e
          \<and> find_in_row (the (w_callback_data j)) [b] 0 = Some (0, b)"
    using toJSON_emits_stored[OF tr, of ctx e j e'] same cb by auto
  show ?thesis
    by (intro conjI) (fact cb, fact len, fact ev, fact hd, fact js)
qed

lemma ex_locked_built:
  "fst (text_button (Literal ''Pro'') (Some (\<lambda>c api p. ([], Inr None))) (Some ex_failing) ex_entropy) = Inr ex_locked"
  by (simp add: ex_locked_def button_builders)

lemma toJSON_ex_locked_disabled:
  "Button_toJSON ex_ctx (ex_locked\<lparr>b_isDisable := True, b_isHidden := False\<rparr>) e =
        (Some \<lparr>w_text = ''Pro'' @ lock_marker, w_url = None,
               w_callback_data = Some ''000000000000000a''\<rparr>, e)"
  by (simp add: Button_toJSON_def ex_locked_fields ex_locked_token getLabel_flags)

theorem identifier_claim_witness:
  "fst (text_button (Literal ''Pro'') (Some (\<lambda>c api p. ([], Inr None))) (Some ex_failing) ex_entropy) = Inr ex_locked
   \<and> Button_toJSON ex_ctx (ex_locked\<lparr>b_isDisable := True, b_isHidden := False\<rparr>) (\<lambda>n. 99) =
        (Some \<lparr>w_text = ''Pro'' @ lock_marker, w_url = None,
               w_callback_data = Some ''000000000000000a''\<rparr>, (\<lambda>n. 99))
   \<and> b_callbackData ex_locked = Some ''000000000000000a''
   \<and> find_in_row ''000000000000000a'' [ex_locked\<lparr>b_isDisable := True, b_isHidden := False\<rparr>] 0 =
        Some (0, ex_locked\<lparr>b_isDisable := True, b_isHidden := False\<rparr>)"
  using identifier_claim[OF ex_locked_built, where b = "ex_locked\<lparr>b_isDisable := True, b_isHidden := False\<rparr>"
      and d = True and h = False
      and ctx = ex_ctx and e = "\<lambda>n. 99" and e' = "\<lambda>n. 99"
      and j = "\<lparr>w_text = ''Pro'' @ lock_marker, w_url = None,
               w_callback_data = Some ''000000000000000a''\<rparr>"]
    ex_locked_built toJSON_ex_locked_disabled[of "\<lambda>n. 99"] ex_locked_token
  by simp


text \<open>
  The claim as stated, for every element, fails for a link that is disabled: it has no
  stored identifier, and two serializations in a row emit two different tokens.
\<close>

theorem identifier_claim_counterexample:
  "b_callbackData ex_locked_link_evaluated = None
   \<and> fst (Button_toJSON ex_ctx ex_locked_link_evaluated ex_entropy) =
        Some \<lparr>w_text = ''Docs'' @ lock_marker, w_url = None,
              w_callback_data = Some ''000000000000000a''\<rparr>
   \<and> fst (Button_toJSON ex_ctx ex_locked_link_evaluated
             (snd (Button_toJSON ex_ctx ex_locked_link_evaluated ex_entropy))) =
        Some \<lparr>w_text = ''Docs'' @ lock_marker, w_url = None,
              w_callback_data = Some ''000000000000000b''\<rparr>"
proof -
  have e0: "ex_entropy 0 = 10" and e1: "ex_entropy (Suc 0) = 11"
    by (simp_all add: ex_entropy_def)
  show ?thesis
    by (simp add: toJSON_locked_link e0 e1 token_10 token_11 ex_locked_link_evaluated_fields)
qed

section \<open>Properties of ButtonManager\<close>

lemma newRow_noop:
  "elems (bm_buttons bm) \<noteq> [] \<Longrightarrow> elems (last (elems (bm_buttons bm))) = [] \<Longrightarrow> newRow bm = Inr bm"
  by (simp add: newRow_def)

lemma grid_inv_new: "grid_inv ButtonManager"
  by (simp add: grid_inv_def unfrozen_manager_def ButtonManager_def rows_of_def)

lemma addButton_unfrozen:
  assumes "unfrozen_manager bm"
  shows "\<exists>bm'. addButton b bm = Inr bm' \<and> unfrozen_manager bm'
          \<and> rows_of bm' = butlast (rows_of bm) @ [last (rows_of bm) @ [b]]
          \<and> bm_frozen bm' = bm_frozen bm"
proof -
  let ?rows = "elems (bm_buttons bm)"
  have ne: "?rows \<noteq> []" and nf: "\<not> arr_frozen (last ?rows)"
    and all: "list_all (\<lambda>r. \<not> arr_frozen r) ?rows" and outer: "\<not> arr_frozen (bm_buttons bm)"
    using assms by (auto simp: unfrozen_manager_def list_all_iff)
  have bl: "list_all (\<lambda>r. \<not> arr_frozen r) (butlast ?rows)"
    using all by (auto simp: list_all_iff dest: in_set_butlastD)
  show ?thesis
    using ne nf bl outer
    by (simp add: addButton_def push_def Let_def unfrozen_manager_def rows_of_def
        map_butlast last_map)
qed

lemma newRow_unfrozen:
  assumes "unfrozen_manager bm"
  shows "\<exists>bm'. newRow bm = Inr bm' \<and> unfrozen_manager bm'
          \<and> rows_of bm' = (if last (rows_of bm) \<noteq> [] then rows_of bm @ [[]] else rows_of bm)
          \<and> bm_frozen bm' = bm_frozen bm"
  using assms
  by (auto simp: newRow_def push_def Let_def unfrozen_manager_def rows_of_def last_map)

lemma grid_inv_addButton:
  assumes "grid_inv bm"
  shows "\<exists>bm'. addButton b bm = Inr bm' \<and> grid_inv bm'"
proof -
  obtain bm' where a: "addButton b bm = Inr bm'" "unfrozen_manager bm'"
    "rows_of bm' = butlast (rows_of bm) @ [last (rows_of bm) @ [b]]"
    using addButton_unfrozen[of bm b] assms by (auto simp: grid_inv_def)
  then have "grid_inv bm'"
    using assms by (simp add: grid_inv_def)
  with a show ?thesis by blast
qed

lemma grid_inv_newRow:
  assumes "grid_inv bm"
  shows "\<exists>bm'. newRow bm = Inr bm' \<and> grid_inv bm'"
proof -
  have ne: "rows_of bm \<noteq> []"
    using assms by (simp add: grid_inv_def unfrozen_manager_def rows_of_def)
  obtain bm' where a: "newRow bm = Inr bm'" "unfrozen_manager bm'"
    "rows_of bm' = (if last (rows_of bm) \<noteq> [] then rows_of bm @ [[]] else rows_of bm)"
    using newRow_unfrozen[of bm] assms by (auto simp: grid_inv_def)
  have "[] \<notin> set (butlast (rows_of bm'))"
  proof (cases "last (rows_of bm) = []")
    case True
    then show ?thesis using a(3) assms by (simp add: grid_inv_def)
  next
    case False
    have eq: "butlast (rows_of bm) @ [last (rows_of bm)] = rows_of bm"
      using ne by simp
    have "set (butlast (rows_of bm) @ [last (rows_of bm)])
            = set (butlast (rows_of bm)) \<union> {last (rows_of bm)}"
      by simp
    then have "set (rows_of bm) = set (butlast (rows_of bm)) \<union> {last (rows_of bm)}"
      unfolding eq .
    then show ?thesis using a(3) assms False by (simp add: grid_inv_def)
  qed
  with a show ?thesis by (auto simp: grid_inv_def)
qed

lemma grid_calls_inv:
  "grid_inv bm \<Longrightarrow> \<exists>bm'. grid_calls cs bm = (bm', None) \<and> grid_inv bm'"
proof (induction cs arbitrary: bm)
  case Nil
  then show ?case by simp
next
  case (Cons c cs)
  show ?case
  proof (cases c)
    case (Append b)
    obtain bm1 where "addButton b bm = Inr bm1" "grid_inv bm1"
      using grid_inv_addButton[OF Cons.prems] by blast
    then show ?thesis using Cons.IH[of bm1] Append by simp
  next
    case NewRow
    obtain bm1 where "newRow bm = Inr bm1" "grid_inv bm1"
      using grid_inv_newRow[OF Cons.prems] by blast
    then show ?thesis using Cons.IH[of bm1] NewRow by simp
  qed
qed

lemma no_adjacent_empty_butlast:
  "[] \<notin> set (butlast rs) \<Longrightarrow> no_adjacent_empty rs"
  by (induction rs rule: no_adjacent_empty.induct) auto

lemma row_toJSON_visible:
  "list_all2 (\<lambda>b j. \<exists>e1 e2. Button_toJSON ctx b e1 = (Some j, e2))
     (filter visible bs) (fst (row_toJSON ctx bs e))"
proof (induction bs arbitrary: e)
  case Nil
  then show ?case by simp
next
  case (Cons b bs)
  obtain json e1 where j: "Button_toJSON ctx b e = (json, e1)"
    by (cases "Button_toJSON ctx b e")
  obtain rowData e2 where r: "row_toJSON ctx bs e1 = (rowData, e2)"
    by (cases "row_toJSON ctx bs e1")
  have ih: "list_all2 (\<lambda>b j. \<exists>e1 e2. Button_toJSON ctx b e1 = (Some j, e2)) (filter visible bs) rowData"
    using Cons.IH[of e1] r by simp
  show ?case
  proof (cases "visible b")
    case True
    then obtain w where "json = Some w"
      using j by (auto simp: visible_def Button_toJSON_def split: if_splits prod.splits)
    then show ?thesis using True j r ih by auto
  next
    case False
    then have "json = None"
      using j toJSON_omitted[of b ctx e] by (auto simp: visible_def)
    then show ?thesis using False j r ih by simp
  qed
qed

lemma rows_toJSON_rows:
  "list_all2 (list_all2 (\<lambda>b j. \<exists>e1 e2. Button_toJSON ctx b e1 = (Some j, e2)))
     (filter (\<lambda>r. r \<noteq> []) (map (filter visible) (map elems rows)))
     (fst (rows_toJSON ctx rows e))"
proof (induction rows arbitrary: e)
  case Nil
  then show ?case by simp
next
  case (Cons row rows)
  obtain rowData e1 where r: "row_toJSON ctx (elems row) e = (rowData, e1)"
    by (cases "row_toJSON ctx (elems row) e")
  obtain kb e2 where k: "rows_toJSON ctx rows e1 = (kb, e2)"
    by (cases "rows_toJSON ctx rows e1")
  have one: "list_all2 (\<lambda>b j. \<exists>e1 e2. Button_toJSON ctx b e1 = (Some j, e2))
     (filter visible (elems row)) rowData"
    using row_toJSON_visible[of ctx "elems row" e] r by simp
  then have emp: "(rowData = []) = (filter visible (elems row) = [])"
    by (auto dest: list_all2_lengthD)
  have ih: "list_all2 (list_all2 (\<lambda>b j. \<exists>e1 e2. Button_toJSON ctx b e1 = (Some j, e2)))
     (filter (\<lambda>r. r \<noteq> []) (map (filter visible) (map elems rows))) kb"
    using Cons.IH[of e1] k by simp
  show ?case
    using r k one emp ih by simp
qed

lemma rows_toJSON_nonempty: "[] \<notin> set (fst (rows_toJSON ctx rows e))"
proof (induction rows arbitrary: e)
  case Nil
  then show ?case by simp
next
  case (Cons row rows)
  then show ?case
    by (auto split: prod.splits) (metis fst_conv)+
qed

text \<open>
  C4. \<^verbatim>\<open>newRow\<close> returns the manager unchanged when the last row is empty. Whatever
  sequence of \<^verbatim>\<open>addButton\<close> and \<^verbatim>\<open>newRow\<close> calls is made on a new manager, none throws
  and the rows never have two empty rows in a row. The serialization of any manager has
  no empty row, and it is, in order, the rows that keep at least one visible element,
  each with the serializations of its visible elements in order; a row whose elements
  are all omitted is therefore absent.
\<close>

theorem grid_rows_claim:
  "(elems (bm_buttons bm) \<noteq> [] \<and> elems (last (elems (bm_buttons bm))) = [] \<longrightarrow> newRow bm = Inr bm)
   \<and> snd (grid_calls calls ButtonManager) = None
   \<and> no_adjacent_empty (rows_of (fst (grid_calls calls ButtonManager)))
   \<and> [] \<notin> set (fst (ButtonManager_toJSON ctx bm e))
   \<and> list_all2 (list_all2 (\<lambda>b j. \<exists>e1 e2. Button_toJSON ctx b e1 = (Some j, e2)))
        (filter (\<lambda>r. r \<noteq> []) (map (filter visible) (rows_of bm)))
        (fst (ButtonManager_toJSON ctx bm e))"
proof -
  obtain bm' where g: "grid_calls calls ButtonManager = (bm', None)" "grid_inv bm'"
    using grid_calls_inv[OF grid_inv_new, of calls] by blast
  have a: "elems (bm_buttons bm) \<noteq> [] \<and> elems (last (elems (bm_buttons bm))) = [] \<longrightarrow> newRow bm = Inr bm"
    using newRow_noop[of bm] by blast
  have b: "snd (grid_calls calls ButtonManager) = None"
    using g by simp
  have c: "no_adjacent_empty (rows_of (fst (grid_calls calls ButtonManager)))"
    using g no_adjacent_empty_butlast[of "rows_of bm'"] by (simp add: grid_inv_def)
  have d: "[] \<notin> set (fst (ButtonManager_toJSON ctx bm e))"
    using rows_toJSON_nonempty by (simp add: ButtonManager_toJSON_def)
  have f: "list_all2 (list_all2 (\<lambda>b j. \<exists>e1 e2. Button_toJSON ctx b e1 = (Some j, e2)))
        (filter (\<lambda>r. r \<noteq> []) (map (filter visible) (rows_of bm)))
        (fst (ButtonManager_toJSON ctx bm e))"
    using rows_toJSON_rows[of ctx "elems (bm_buttons bm)" e]
    by (simp add: ButtonManager_toJSON_def rows_of_def)
  show ?thesis
    by (intro conjI) (fact a, fact b, fact c, fact d, fact f)
qed

lemma ex_toJSON:
  "Button_toJSON c ex_hidden e = (None, e)"
  "Button_toJSON c ex_marker e = (None, e)"
  "Button_toJSON c ex_empty_link e =
     (Some \<lparr>w_text = ''Docs'', w_url = None, w_callback_data = None\<rparr>, e)"
  by (simp_all add: Button_toJSON_def getLabel_def ex_hidden_def ex_buttons button_builders)

theorem grid_rows_claim_witness:
  "newRow ex_manager = Inr ex_manager
   \<and> rows_of (fst (grid_calls ex_grid_calls ButtonManager)) = [[ex_go], [ex_locked], []]
   \<and> fst (ButtonManager_toJSON ex_ctx ex_manager ex_entropy) =
        [[\<lparr>w_text = ''Docs'', w_url = None, w_callback_data = None\<rparr>]]"
proof -
  have a: "elems (bm_buttons ex_manager) \<noteq> [] \<and> elems (last (elems (bm_buttons ex_manager))) = []"
    by (simp add: ex_manager_def)
  have b: "rows_of (fst (grid_calls ex_grid_calls ButtonManager)) = [[ex_go], [ex_locked], []]"
    by (simp add: ex_grid_calls_def ButtonManager_def addButton_def newRow_def push_def
        rows_of_def Let_def)
  have c: "fst (ButtonManager_toJSON ex_ctx ex_manager ex_entropy) =
        [[\<lparr>w_text = ''Docs'', w_url = None, w_callback_data = None\<rparr>]]"
    by (simp add: ButtonManager_toJSON_def ex_manager_def ex_toJSON)
  show ?thesis
    using a b c grid_rows_claim[of ex_manager ex_grid_calls ex_ctx ex_entropy]
    by simp
qed

section \<open>The fields of the registry under its operations\<close>




lemma setContext_fields:
  "mm_context (setContext c mid mt w) = c"
  "mm_currentMessageId (setContext c mid mt w) =
     (if mid \<noteq> None \<and> mid \<noteq> Some 0 then mid else mm_currentMessageId w)"
  "mm_mediaType (setContext c mid mt w) = (if truthy mt then the mt else mm_mediaType w)"
  "mm_payload (setContext c mid mt w) = mm_payload w"
  "mm_menus (setContext c mid mt w) = mm_menus w"
  "heap (setContext c mid mt w) = heap w"
  by (simp_all add: setContext_def Let_def)






lemma middleware_no_message:
  assumes "message_id_of c = Inl err"
  shows "middleware this c w = (Some err, registerMenu this w)"
  using assms by (simp add: middleware_def Let_def)


section \<open>Properties of the registry\<close>

lemma deepFreeze_menuId: "m_menuId (deepFreeze m) = m_menuId m"
  by (simp add: deepFreeze_def)

lemma get_prop_Own: "(get_prop obj k = Own a) = (map_of obj k = Some a)"
  by (auto simp: get_prop_def split: option.splits)

lemma get_prop_Undefined:
  "(get_prop obj k = Undefined) = (map_of obj k = None \<and> k \<notin> set object_prototype_keys)"
  by (auto simp: get_prop_def split: option.splits)

lemma registerMenu_present:
  "get_prop (mm_menus w) (m_menuId (heap w a)) \<noteq> Undefined \<Longrightarrow> registerMenu a w = w"
  by (simp add: registerMenu_def Let_def split: js_prop.splits)

lemma registerMenu_new:
  "get_prop (mm_menus w) (m_menuId (heap w a)) = Undefined \<Longrightarrow>
   registerMenu a w =
     w\<lparr>mm_menus := mm_menus w @ [(m_menuId (heap w a), a)],
       heap := (heap w)(a := deepFreeze (heap w a))\<rparr>"
  by (simp add: registerMenu_def Let_def)

lemma registerMenu_first_wins:
  assumes "m_menuId (heap w b) = m_menuId (heap w a)"
  shows "registerMenu b (registerMenu a w) = registerMenu a w"
proof (cases "get_prop (mm_menus w) (m_menuId (heap w a)) = Undefined")
  case False
  then have "registerMenu a w = w" by (rule registerMenu_present)
  moreover have "registerMenu b w = w"
    using False assms by (simp add: registerMenu_present)
  ultimately show ?thesis by simp
next
  case True
  let ?w = "registerMenu a w"
  have w': "?w = w\<lparr>mm_menus := mm_menus w @ [(m_menuId (heap w a), a)],
       heap := (heap w)(a := deepFreeze (heap w a))\<rparr>"
    using True by (rule registerMenu_new)
  have id: "m_menuId (heap ?w b) = m_menuId (heap w a)"
    using assms by (simp add: w' deepFreeze_menuId)
  have "map_of (mm_menus w) (m_menuId (heap w a)) = None"
    using True by (simp add: get_prop_Undefined)
  then have "map_of (mm_menus w @ [(m_menuId (heap w a), a)]) (m_menuId (heap w a)) = Some a"
    by (simp add: map_add_def)
  then have "get_prop (mm_menus ?w) (m_menuId (heap ?w b)) = Own a"
    unfolding id get_prop_Own by (simp add: w')
  then show ?thesis
    by (simp add: registerMenu_present)
qed

lemma getMenuById_registered:
  "map_of (mm_menus w) k = Some a \<Longrightarrow> getMenuById k w = Inr (Own a)"
  by (simp add: getMenuById_def get_prop_def)

lemma getMenuById_not_found:
  "map_of (mm_menus w) k = None \<Longrightarrow> k \<notin> set object_prototype_keys \<Longrightarrow>
   getMenuById k w = Inl (Error (''Menu with ID '' @ k @ '' does not exist.''))"
  by (simp add: getMenuById_def get_prop_def)

lemma registerMenu_inherited_ignored:
  "m_menuId (heap w a) \<in> set object_prototype_keys \<Longrightarrow> registerMenu a w = w"
  by (rule registerMenu_present) (simp add: get_prop_def split: option.splits)

text \<open>
  C6, the failing input. No menu is registered, yet the lookup of the id
  \<^verbatim>\<open>constructor\<close> does not fail: it returns the member of \<^verbatim>\<open>Object.prototype\<close> of that
  name. The same holds for the other eleven names of \<open>object_prototype_keys\<close>.
\<close>

theorem getMenuById_inherited_key:
  "mm_menus ex_stale_world = []
   \<and> getMenuById ''constructor'' ex_stale_world = Inr (Inherited ''constructor'')"
  by (simp add: getMenuById_def get_prop_def object_prototype_keys_def ex_stale_world_def)

section \<open>Properties of the render pipeline\<close>

lemma nonempty_rows_append [simp]:
  "nonempty_rows (A @ B) = nonempty_rows A @ nonempty_rows B"
  by (simp add: nonempty_rows_def)

lemma nonempty_rows_simps [simp]:
  "nonempty_rows [] = []"
  "nonempty_rows (r # rs) = (if r = [] then nonempty_rows rs else r # nonempty_rows rs)"
  by (simp_all add: nonempty_rows_def)

lemma nonempty_rows_snoc:
  "R \<noteq> [] \<Longrightarrow> nonempty_rows R = nonempty_rows (butlast R) @ nonempty_rows [last R]"
proof -
  assume "R \<noteq> []"
  then have "butlast R @ [last R] = R" by simp
  then have "nonempty_rows R = nonempty_rows (butlast R @ [last R])" by simp
  then show ?thesis by (simp only: nonempty_rows_append)
qed

lemma same_layout_nonempty:
  assumes "same_layout R S"
  shows "nonempty_rows R = nonempty_rows S"
proof -
  have ne: "R \<noteq> []" "S \<noteq> []"
    and eq: "nonempty_rows (butlast R) = nonempty_rows (butlast S)" "last R = last S"
    using assms by (simp_all add: same_layout_def)
  show ?thesis
    using nonempty_rows_snoc[OF ne(1)] nonempty_rows_snoc[OF ne(2)] eq by simp
qed


lemma same_layout_trans: "same_layout R S \<Longrightarrow> same_layout S T \<Longrightarrow> same_layout R T"
  by (simp add: same_layout_def)

lemma glue_nonempty: "Y \<noteq> [] \<Longrightarrow> glue X Y \<noteq> []"
  by (simp add: glue_def)

lemma glue_single: "Y \<noteq> [] \<Longrightarrow> glue [c] Y = (c @ hd Y) # tl Y"
  by (simp add: glue_def)

lemma glue_prefix: "X \<noteq> [] \<Longrightarrow> Y \<noteq> [] \<Longrightarrow> glue X Y = butlast X @ glue [last X] Y"
  by (simp add: glue_def)

lemma glue_append_left: "Q \<noteq> [] \<Longrightarrow> glue (P @ Q) Y = P @ glue Q Y"
  by (simp add: glue_def butlast_append)

lemma glue_append_right: "X \<noteq> [] \<Longrightarrow> F \<noteq> [] \<Longrightarrow> glue X (F @ G) = glue X F @ G"
  by (simp add: glue_def)

lemma glue_assoc:
  assumes "X \<noteq> []" "Y \<noteq> []" "Z \<noteq> []"
  shows "glue (glue X Y) Z = glue X (glue Y Z)"
proof (cases "tl Y = []")
  case True
  then obtain y where y: "Y = [y]" using assms(2) by (cases Y) auto
  then show ?thesis using assms by (simp add: glue_def)
next
  case False
  then obtain y Y' where y: "Y = y # Y'" "Y' \<noteq> []" using assms(2) by (cases Y) auto
  then show ?thesis using assms
    by (simp add: glue_def butlast_append)
qed

lemma same_layout_continue:
  assumes "same_layout R A" "F \<noteq> []"
  shows "same_layout (butlast R @ glue [last R] F) (glue A F)"
proof -
  have A: "A \<noteq> []" "R \<noteq> []" "last R = last A"
    "nonempty_rows (butlast R) = nonempty_rows (butlast A)"
    using assms(1) by (simp_all add: same_layout_def)
  have g: "glue A F = butlast A @ glue [last A] F"
    using A(1) assms(2) by (rule glue_prefix)
  have ne: "glue [last A] F \<noteq> []"
    using assms(2) by (rule glue_nonempty)
  show ?thesis
    unfolding g using A ne
    by (simp add: same_layout_def butlast_append)
qed

lemma addButtons_unfrozen:
  "unfrozen_manager t \<Longrightarrow>
   \<exists>t'. addButtons bs t = (t', None) \<and> unfrozen_manager t'
        \<and> rows_of t' = butlast (rows_of t) @ [last (rows_of t) @ bs]"
proof (induction bs arbitrary: t)
  case Nil
  then have "rows_of t \<noteq> []"
    by (simp add: unfrozen_manager_def rows_of_def)
  then show ?case using Nil by simp
next
  case (Cons b bs)
  obtain t1 where t1: "addButton b t = Inr t1" "unfrozen_manager t1"
    "rows_of t1 = butlast (rows_of t) @ [last (rows_of t) @ [b]]"
    using addButton_unfrozen[OF Cons.prems, of b] by blast
  obtain t' where t': "addButtons bs t1 = (t', None)" "unfrozen_manager t'"
    "rows_of t' = butlast (rows_of t1) @ [last (rows_of t1) @ bs]"
    using Cons.IH[OF t1(2)] by blast
  show ?case using t1 t' by simp
qed

lemma rows_of_nonempty: "unfrozen_manager t \<Longrightarrow> rows_of t \<noteq> []"
  by (simp add: unfrozen_manager_def rows_of_def)

lemma same_layout_break:
  assumes "R1 \<noteq> []" "R2 = (if last R1 \<noteq> [] then R1 @ [[]] else R1)"
  shows "same_layout R2 (R1 @ [[]])"
proof (cases "last R1 = []")
  case False
  then show ?thesis using assms by (simp add: same_layout_def)
next
  case True
  then have "nonempty_rows R1 = nonempty_rows (butlast R1)"
    using nonempty_rows_snoc[OF assms(1)] by simp
  then show ?thesis using assms True by (simp add: same_layout_def)
qed

lemma same_layout_snoc:
  assumes "same_layout R A"
  shows "same_layout (R @ [[]]) (A @ [[]])"
  using same_layout_nonempty[OF assms] by (simp add: same_layout_def)

lemma glue_empty_row: "G \<noteq> [] \<Longrightarrow> glue [[]] G = G"
  by (simp add: glue_def)

lemma insert_dynamic_layout:
  "unfrozen_manager t \<Longrightarrow> ds \<noteq> [] \<Longrightarrow>
   \<exists>t'. insert_dynamic ds t = (t', None) \<and> unfrozen_manager t'
        \<and> same_layout (rows_of t') (butlast (rows_of t) @ glue [last (rows_of t)] (map elems ds))"
proof (induction ds arbitrary: t)
  case Nil
  then show ?case by simp
next
  case (Cons d ds)
  obtain t1 where t1: "addButtons (elems d) t = (t1, None)" "unfrozen_manager t1"
    "rows_of t1 = butlast (rows_of t) @ [last (rows_of t) @ elems d]"
    using addButtons_unfrozen[OF Cons.prems(1), of "elems d"] by blast
  show ?case
  proof (cases "ds = []")
    case True
    have "same_layout (rows_of t1) (butlast (rows_of t) @ glue [last (rows_of t)] [elems d])"
      using t1(3) by (simp add: glue_def same_layout_def)
    then show ?thesis using True t1 by simp
  next
    case False
    obtain t2 where t2: "newRow t1 = Inr t2" "unfrozen_manager t2"
      "rows_of t2 = (if last (rows_of t1) \<noteq> [] then rows_of t1 @ [[]] else rows_of t1)"
      using newRow_unfrozen[OF t1(2)] by blast
    obtain t' where t': "insert_dynamic ds t2 = (t', None)" "unfrozen_manager t'"
      "same_layout (rows_of t') (butlast (rows_of t2) @ glue [last (rows_of t2)] (map elems ds))"
      using Cons.IH[OF t2(2) False] by blast
    have ne: "map elems ds \<noteq> []" using False by simp
    have "same_layout (rows_of t2) (rows_of t1 @ [[]])"
      using same_layout_break[OF rows_of_nonempty[OF t1(2)] t2(3)] .
    then have s1: "same_layout (butlast (rows_of t2) @ glue [last (rows_of t2)] (map elems ds))
                 (glue (rows_of t1 @ [[]]) (map elems ds))"
      using ne by (rule same_layout_continue)
    have e1: "glue (rows_of t1 @ [[]]) (map elems ds) = rows_of t1 @ map elems ds"
      using ne by (simp add: glue_append_left glue_empty_row)
    have e2: "butlast (rows_of t) @ glue [last (rows_of t)] (map elems (d # ds))
                     = rows_of t1 @ map elems ds"
      using ne t1(3) by (simp add: glue_def)
    have "same_layout (rows_of t')
        (butlast (rows_of t) @ glue [last (rows_of t)] (map elems (d # ds)))"
      using same_layout_trans[OF t'(3) s1] unfolding e1 e2 .
    then show ?thesis using False t1 t2 t' by simp
  qed
qed

lemma fragment_nonempty: "fragment gc b \<noteq> []"
  by (simp add: fragment_def split: option.splits)

lemma splice_row_nonempty: "splice_row gc bs \<noteq> []"
  by (induction bs) (simp_all add: splice_row_def glue_nonempty)

lemma splice_row_Cons: "splice_row gc (b # bs) = glue (fragment gc b) (splice_row gc bs)"
  by (simp add: splice_row_def)

lemma merge_button_layout:
  assumes "unfrozen_manager t"
  shows "\<exists>t'. merge_button gc b t = (t', None) \<and> unfrozen_manager t'
        \<and> same_layout (rows_of t') (butlast (rows_of t) @ glue [last (rows_of t)] (fragment gc b))"
proof -
  have R: "rows_of t \<noteq> []" using assms by (rule rows_of_nonempty)
  have keep: "same_layout (rows_of t) (butlast (rows_of t) @ glue [last (rows_of t)] [[]])"
    using R by (simp add: glue_def same_layout_def)
  show ?thesis
  proof (cases "is_marker b")
    case False
    obtain t1 where t1: "addButton b t = Inr t1" "unfrozen_manager t1"
      "rows_of t1 = butlast (rows_of t) @ [last (rows_of t) @ [b]]"
      using addButton_unfrozen[OF assms, of b] by blast
    have "same_layout (rows_of t1) (butlast (rows_of t) @ glue [last (rows_of t)] [[b]])"
      using t1(3) by (simp add: glue_def same_layout_def)
    then show ?thesis
      using False t1 by (auto simp: merge_button_def fragment_def is_marker_def)
  next
    case True
    then have m: "b_type b = Placeholder \<and> truthy (rawLabel b)
         \<and> prefix ''__placeholder_'' (the (rawLabel b))"
      by (simp add: is_marker_def)
    show ?thesis
    proof (cases "gc (dynamicId_of (the (rawLabel b)))")
      case None
      then show ?thesis
        using True m keep assms by (simp add: merge_button_def fragment_def)
    next
      case (Some g)
      show ?thesis
      proof (cases "elems g = []")
        case True
        then show ?thesis
          using \<open>is_marker b\<close> m keep assms Some by (simp add: merge_button_def fragment_def)
      next
        case False
        obtain t' where "insert_dynamic (elems g) t = (t', None)" "unfrozen_manager t'"
          "same_layout (rows_of t') (butlast (rows_of t) @ glue [last (rows_of t)] (map elems (elems g)))"
          using insert_dynamic_layout[OF assms False] by blast
        then show ?thesis
          using \<open>is_marker b\<close> m Some False by (simp add: merge_button_def fragment_def)
      qed
    qed
  qed
qed

lemma merge_row_layout:
  "unfrozen_manager t \<Longrightarrow>
   \<exists>t'. merge_row gc bs t = (t', None) \<and> unfrozen_manager t'
        \<and> same_layout (rows_of t') (butlast (rows_of t) @ glue [last (rows_of t)] (splice_row gc bs))"
proof (induction bs arbitrary: t)
  case Nil
  then have "rows_of t \<noteq> []" by (rule rows_of_nonempty)
  then show ?case using Nil by (simp add: splice_row_def glue_def same_layout_def)
next
  case (Cons b bs)
  let ?R = "rows_of t"
  obtain t1 where t1: "merge_button gc b t = (t1, None)" "unfrozen_manager t1"
    "same_layout (rows_of t1) (butlast ?R @ glue [last ?R] (fragment gc b))"
    using merge_button_layout[OF Cons.prems, of gc b] by blast
  obtain t' where t': "merge_row gc bs t1 = (t', None)" "unfrozen_manager t'"
    "same_layout (rows_of t') (butlast (rows_of t1) @ glue [last (rows_of t1)] (splice_row gc bs))"
    using Cons.IH[OF t1(2)] by blast
  have s1: "same_layout (butlast (rows_of t1) @ glue [last (rows_of t1)] (splice_row gc bs))
          (glue (butlast ?R @ glue [last ?R] (fragment gc b)) (splice_row gc bs))"
    using t1(3) splice_row_nonempty by (rule same_layout_continue)
  have e1: "glue (butlast ?R @ glue [last ?R] (fragment gc b)) (splice_row gc bs)
      = butlast ?R @ glue [last ?R] (splice_row gc (b # bs))"
    using fragment_nonempty[of gc b] splice_row_nonempty[of gc bs]
    by (simp add: glue_append_left glue_nonempty glue_assoc splice_row_Cons)
  have "same_layout (rows_of t')
      (butlast ?R @ glue [last ?R] (splice_row gc (b # bs)))"
    using same_layout_trans[OF t'(3) s1] unfolding e1 .
  then show ?case using t1 t' by simp
qed

lemma splice_nonempty: "rows \<noteq> [] \<Longrightarrow> splice gc rows \<noteq> []"
  by (cases rows) (simp_all add: splice_def splice_row_nonempty)

lemma merge_rows_layout:
  "unfrozen_manager t \<Longrightarrow>
   \<exists>t'. merge_rows gc rows t = (t', None) \<and> unfrozen_manager t'
        \<and> same_layout (rows_of t')
             (butlast (rows_of t) @ glue [last (rows_of t)] (splice gc (map elems rows)))"
proof (induction rows arbitrary: t)
  case Nil
  then have "rows_of t \<noteq> []" by (rule rows_of_nonempty)
  then show ?case using Nil by (simp add: splice_def glue_def same_layout_def)
next
  case (Cons row rest)
  let ?R = "rows_of t"
  let ?F = "splice_row gc (elems row)"
  let ?A = "butlast ?R @ glue [last ?R] ?F"
  obtain t1 where t1: "merge_row gc (elems row) t = (t1, None)" "unfrozen_manager t1"
    "same_layout (rows_of t1) ?A"
    using merge_row_layout[OF Cons.prems, of gc "elems row"] by blast
  show ?case
  proof (cases "rest = []")
    case True
    then show ?thesis using t1 by (simp add: splice_def)
  next
    case False
    let ?G = "splice gc (map elems rest)"
    have G: "?G \<noteq> []" using False by (simp add: splice_nonempty)
    obtain t2 where t2: "newRow t1 = Inr t2" "unfrozen_manager t2"
      "rows_of t2 = (if last (rows_of t1) \<noteq> [] then rows_of t1 @ [[]] else rows_of t1)"
      using newRow_unfrozen[OF t1(2)] by blast
    obtain t' where t': "merge_rows gc rest t2 = (t', None)" "unfrozen_manager t'"
      "same_layout (rows_of t') (butlast (rows_of t2) @ glue [last (rows_of t2)] ?G)"
      using Cons.IH[OF t2(2)] by blast
    have "same_layout (rows_of t2) (rows_of t1 @ [[]])"
      using same_layout_break[OF rows_of_nonempty[OF t1(2)] t2(3)] .
    moreover have "same_layout (rows_of t1 @ [[]]) (?A @ [[]])"
      using t1(3) by (rule same_layout_snoc)
    ultimately have "same_layout (rows_of t2) (?A @ [[]])"
      by (rule same_layout_trans)
    then have s1: "same_layout (butlast (rows_of t2) @ glue [last (rows_of t2)] ?G)
                 (glue (?A @ [[]]) ?G)"
      using G by (rule same_layout_continue)
    have e1: "glue (?A @ [[]]) ?G = ?A @ ?G"
      using G by (simp add: glue_append_left glue_empty_row)
    have e2: "butlast ?R @ glue [last ?R] (splice gc (map elems (row # rest))) = ?A @ ?G"
      using splice_row_nonempty[of gc "elems row"]
      by (simp add: splice_def glue_append_right)
    have "same_layout (rows_of t')
        (butlast ?R @ glue [last ?R] (splice gc (map elems (row # rest))))"
      using same_layout_trans[OF t'(3) s1] unfolding e1 e2 .
    then show ?thesis using False t1 t2 t' by simp
  qed
qed

lemma unfrozen_new: "unfrozen_manager ButtonManager"
  by (simp add: unfrozen_manager_def ButtonManager_def)

lemma merge_rows_splice:
  "\<exists>t. merge_rows gc rows ButtonManager = (t, None) \<and> unfrozen_manager t
       \<and> nonempty_rows (rows_of t) = nonempty_rows (splice gc (map elems rows))"
proof -
  obtain t where t: "merge_rows gc rows ButtonManager = (t, None)" "unfrozen_manager t"
    "same_layout (rows_of t)
       (butlast (rows_of ButtonManager) @ glue [last (rows_of ButtonManager)] (splice gc (map elems rows)))"
    using merge_rows_layout[OF unfrozen_new, of gc rows] by blast
  have "rows_of (ButtonManager :: ('a, 'b) button_manager) = [[]]"
    by (simp add: rows_of_def ButtonManager_def)
  then have "nonempty_rows (rows_of t) = nonempty_rows (glue [[]] (splice gc (map elems rows)))"
    using same_layout_nonempty[OF t(3)] by simp
  moreover have "nonempty_rows (glue [[]] S) = nonempty_rows S" for S :: "('a, 'b) button list list"
    by (cases "S = []") (simp_all add: glue_def)
  ultimately show ?thesis using t by auto
qed







































































section \<open>Properties of routing\<close>

lemma find_in_row_enumerate:
  "find_in_row tok bs j = List.find (\<lambda>(j, b). b_callbackData b = Some tok) (enumerate j bs)"
  by (induction bs arbitrary: j) simp_all

lemma find_map_position:
  "List.find (\<lambda>(i, j, b). b_callbackData b = Some tok) (map (\<lambda>(j, b). (i, j, b)) xs)
     = map_option (\<lambda>(j, b). (i, j, b)) (List.find (\<lambda>(j, b). b_callbackData b = Some tok) xs)"
  by (induction xs) auto

lemma find_append_option:
  "List.find P (xs @ ys) = (case List.find P xs of Some x \<Rightarrow> Some x | None \<Rightarrow> List.find P ys)"
  by (induction xs) simp_all

lemma find_in_rows_positions:
  "find_in_rows tok rows i
     = List.find (\<lambda>(i, j, b). b_callbackData b = Some tok) (positions_in_rows rows i)"
proof (induction rows arbitrary: i)
  case Nil
  then show ?case by (simp add: positions_in_rows_def)
next
  case (Cons row rows)
  have split: "positions_in_rows (row # rows) i
      = map (\<lambda>(j, b). (i, j, b)) (enumerate 0 (elems row)) @ positions_in_rows rows (Suc i)"
    by (simp add: positions_in_rows_def)
  show ?case
    unfolding split find_append_option find_map_position
    using Cons.IH[of "Suc i"]
    by (simp add: find_in_row_enumerate split: option.splits)
qed

lemma find_map_menu:
  "List.find (has_token tok) (map (\<lambda>(i, j, b). (a, i, j, b)) xs)
     = map_option (\<lambda>(i, j, b). (a, i, j, b)) (List.find (\<lambda>(i, j, b). b_callbackData b = Some tok) xs)"
  by (induction xs) (auto simp: has_token_def)

lemma find_in_menus_scan:
  "find_in_menus h menus tok = List.find (has_token tok) (scan_order h menus)"
proof (induction menus)
  case Nil
  then show ?case by (simp add: scan_order_def)
next
  case (Cons a menus)
  have split: "scan_order h (a # menus)
      = map (\<lambda>(i, j, b). (a, i, j, b))
          (positions_in_rows (elems (bm_buttons (current_buttons (h a)))) 0)
        @ scan_order h menus"
    by (simp add: scan_order_def)
  show ?case
    unfolding split find_append_option find_map_menu
    using Cons.IH
    by (simp add: find_in_rows_positions getButtons_def split: option.splits)
qed

lemma for_in_keys_plain:
  assumes "list_all (\<lambda>k. \<not> is_array_index k) (map fst obj)"
  shows "for_in_keys obj = map fst obj"
proof -
  have "filter is_array_index (map fst obj) = []"
    using assms by (induction obj) auto
  moreover have "filter (\<lambda>k. \<not> is_array_index k) (map fst obj) = map fst obj"
    using assms by (induction obj) auto
  ultimately show ?thesis by (simp add: for_in_keys_def)
qed

lemma map_of_own_keys:
  "distinct (map fst obj) \<Longrightarrow> map (\<lambda>k. the (map_of obj k)) (map fst obj) = map snd obj"
proof (induction obj)
  case Nil
  then show ?case by simp
next
  case (Cons kv obj)
  obtain k v where kv: "kv = (k, v)" by (cases kv)
  have "\<forall>k'\<in>set (map fst obj). k' \<noteq> k"
    using Cons.prems kv by auto
  then have "map (\<lambda>k'. the (map_of (kv # obj) k')) (map fst obj)
      = map (\<lambda>k'. the (map_of obj k')) (map fst obj)"
    using kv by (intro map_cong) auto
  then show ?case using Cons kv by simp
qed

lemma menus_in_registration_order:
  assumes "list_all (\<lambda>k. \<not> is_array_index k) (map fst obj)" "distinct (map fst obj)"
  shows "menus_in_order obj = map snd obj"
  using for_in_keys_plain[OF assms(1)] map_of_own_keys[OF assms(2)]
  by (simp add: menus_in_order_def)

lemma middleware_unroutable:
  assumes "message_id_of c = Inr mid"
    and "Menu_evaluate this (setContext c mid None (registerMenu this w)) = (None, w3)"
    and "callback_data_of c = Some tok" "tok \<noteq> []"
    and "find_in_menus (heap w3) (menus_in_order (getMenus w3)) tok = None"
  shows "middleware this c w =
           (None, emit [ConsoleLog (''No button found for callback data: '' @ tok),
                        AnswerCbQuery, CallNext] w3)"
  using assms by (simp add: middleware_def Let_def)

lemma middleware_routed:
  assumes "message_id_of c = Inr mid"
    and "Menu_evaluate this (setContext c mid None (registerMenu this w)) = (None, w3)"
    and "callback_data_of c = Some tok" "tok \<noteq> []"
    and "find_in_menus (heap w3) (menus_in_order (getMenus w3)) tok = Some (a, i, j, b)"
    and "handler c (MenuApi a) b w3 = ((b', res), w4)"
  shows "middleware this c w =
           ((case res of Inl err \<Rightarrow> Some err | Inr v \<Rightarrow> None),
            emit (case res of Inl err \<Rightarrow> [] | Inr v \<Rightarrow> [AnswerCbQuery, CallNext])
              (w4\<lparr>heap := (heap w4)(a := store_current i j b' (heap w4 a))\<rparr>))"
  using assms by (cases res) (simp_all add: middleware_def Let_def createMenuApi_def emit_def)

text \<open>
  C5, as amended. Consider a pass whose update has a message and non-empty callback
  data \<open>tok\<close> and whose evaluation of the handling menu succeeded. The router looks at
  the registered menus in the enumeration order of the registry object, which is the
  registration order whenever no id is an array index; of each menu it looks at the
  rendered grid, or at the static grid when the menu was never rendered; rows top to
  bottom, columns left to right. When no button carries \<open>tok\<close> the pass logs one line,
  acknowledges the query, calls \<open>next\<close> and returns without error. Otherwise the
  handler of the first button that carries \<open>tok\<close> runs, with the api of the menu that
  button was found in, whichever menu handles the pass.
\<close>

theorem route_claim:
  assumes "message_id_of c = Inr mid"
    and "Menu_evaluate this (setContext c mid None (registerMenu this w)) = (None, w3)"
    and "callback_data_of c = Some tok" "tok \<noteq> []"
  shows
   "(List.find (has_token tok) (scan_order (heap w3) (menus_in_order (mm_menus w3))) = None \<longrightarrow>
       middleware this c w =
         (None, emit [ConsoleLog (''No button found for callback data: '' @ tok),
                      AnswerCbQuery, CallNext] w3))
    \<and> (List.find (has_token tok) (scan_order (heap w3) (menus_in_order (mm_menus w3)))
          = Some (a, i, j, b)
        \<and> handler c (MenuApi a) b w3 = ((b', res), w4) \<longrightarrow>
       middleware this c w =
         ((case res of Inl err \<Rightarrow> Some err | Inr v \<Rightarrow> None),
          emit (case res of Inl err \<Rightarrow> [] | Inr v \<Rightarrow> [AnswerCbQuery, CallNext])
            (w4\<lparr>heap := (heap w4)(a := store_current i j b' (heap w4 a))\<rparr>)))
    \<and> (list_all (\<lambda>k. \<not> is_array_index k) (map fst (mm_menus w3))
        \<and> distinct (map fst (mm_menus w3)) \<longrightarrow>
       menus_in_order (mm_menus w3) = map snd (mm_menus w3))"
proof (intro conjI impI)
  assume "List.find (has_token tok) (scan_order (heap w3) (menus_in_order (mm_menus w3))) = None"
  then have "find_in_menus (heap w3) (menus_in_order (getMenus w3)) tok = None"
    by (simp add: find_in_menus_scan getMenus_def)
  then show "middleware this c w =
         (None, emit [ConsoleLog (''No button found for callback data: '' @ tok),
                      AnswerCbQuery, CallNext] w3)"
    using assms by (intro middleware_unroutable)
next
  assume h: "List.find (has_token tok) (scan_order (heap w3) (menus_in_order (mm_menus w3)))
          = Some (a, i, j, b)
        \<and> handler c (MenuApi a) b w3 = ((b', res), w4)"
  then have "find_in_menus (heap w3) (menus_in_order (getMenus w3)) tok = Some (a, i, j, b)"
    by (simp add: find_in_menus_scan getMenus_def)
  then show "middleware this c w =
         ((case res of Inl err \<Rightarrow> Some err | Inr v \<Rightarrow> None),
          emit (case res of Inl err \<Rightarrow> [] | Inr v \<Rightarrow> [AnswerCbQuery, CallNext])
            (w4\<lparr>heap := (heap w4)(a := store_current i j b' (heap w4 a))\<rparr>))"
    using assms h by (intro middleware_routed) auto
next
  assume "list_all (\<lambda>k. \<not> is_array_index k) (map fst (mm_menus w3))
        \<and> distinct (map fst (mm_menus w3))"
  then show "menus_in_order (mm_menus w3) = map snd (mm_menus w3)"
    using menus_in_registration_order by blast
qed

lemma manager_one_button:
  "addButton b ButtonManager =
     Inr \<lparr>bm_buttons = \<lparr>elems = [\<lparr>elems = [b], arr_frozen = False\<rparr>], arr_frozen = False\<rparr>,
          bm_frozen = False\<rparr>"
  by (simp add: addButton_def push_def ButtonManager_def Let_def)

lemma ex_sub_menu_eq:
  "ex_sub_menu =
     \<lparr>m_menuId = ''sub'',
      m_buttons = \<lparr>bm_buttons = \<lparr>elems = [\<lparr>elems = [ex_go], arr_frozen = False\<rparr>],
                                arr_frozen = False\<rparr>, bm_frozen = False\<rparr>,
      m_parentMenuId = None, m_frozen = False, m_dynamicGenerators = [],
      m_temporaryButtons = None\<rparr>"
proof -
  have "text_button (Literal ''Go'') (Some (\<lambda>c api p. ([], Inl (Error ''boom'')))) None ex_entropy
          = (Inr ex_go, snd (draw ex_entropy))"
    by (simp add: ex_go_def text_button_result)
  then show ?thesis
    by (simp add: ex_sub_menu_def Menu_text_def on_buttons_def append_built_def Menu_def
        manager_one_button)
qed

lemma ex_root_menu_eq:
  "ex_root_menu =
     \<lparr>m_menuId = ''root'',
      m_buttons = \<lparr>bm_buttons = \<lparr>elems = [\<lparr>elems = [ex_B], arr_frozen = False\<rparr>],
                                arr_frozen = False\<rparr>, bm_frozen = False\<rparr>,
      m_parentMenuId = None, m_frozen = False, m_dynamicGenerators = [],
      m_temporaryButtons = None\<rparr>"
proof -
  have "text_button (Literal ''B'') None None (snd (draw ex_entropy))
          = (Inr ex_B, snd (draw (snd (draw ex_entropy))))"
    by (simp add: ex_B_def text_button_result)
  then show ?thesis
    by (simp add: ex_root_menu_def Menu_text_def on_buttons_def append_built_def Menu_def
        manager_one_button)
qed

lemma get_prop_fresh:
  "get_prop [] ''sub'' = Undefined" "get_prop [(''sub'', Suc 0)] ''root'' = Undefined"
  "get_prop [(''sub'', Suc 0), (''root'', 0)] ''root'' = Own 0"
  by (simp_all add: get_prop_def object_prototype_keys_def)

lemma ex_route_world_fields:
  "mm_menus ex_route_world = [(''sub'', Suc 0)]"
  "heap ex_route_world 0 = ex_root_menu"
  "heap ex_route_world (Suc 0) = deepFreeze (ex_sub_menu\<lparr>m_parentMenuId := Some ''root''\<rparr>)"
  "w_entropy ex_route_world = ex_entropy" "w_events ex_route_world = []"
  "mm_payload ex_route_world = None"
proof -
  have ids: "m_menuId ex_sub_menu = ''sub''" "m_menuId ex_root_menu = ''root''"
    "m_frozen ex_sub_menu = False"
    by (simp_all add: ex_sub_menu_eq ex_root_menu_eq)
  have w: "ex_route_world =
      ex_fresh_world\<lparr>mm_menus := [(''sub'', Suc 0)],
        heap := (heap ex_fresh_world)(Suc 0 :=
           deepFreeze (ex_sub_menu\<lparr>m_parentMenuId := Some ''root''\<rparr>))\<rparr>"
    by (simp add: ex_route_world_def Menu_register_def registerMenu_def ex_fresh_world_def ids
        get_prop_fresh Let_def)
  show "mm_menus ex_route_world = [(''sub'', Suc 0)]"
    "heap ex_route_world 0 = ex_root_menu"
    "heap ex_route_world (Suc 0) = deepFreeze (ex_sub_menu\<lparr>m_parentMenuId := Some ''root''\<rparr>)"
    "w_entropy ex_route_world = ex_entropy" "w_events ex_route_world = []"
    "mm_payload ex_route_world = None"
    by (simp_all add: w ex_fresh_world_def)
qed

lemma ex_button_facts:
  "b_frozen ex_B = False" "b_frozen ex_go = False"
  "b_type ex_B_frozen = Action" "b_type ex_go_frozen = Action"
  "b_callbackData ex_B_frozen = Some (hex_digits 16 11)"
  "b_callbackData ex_go_frozen = Some (hex_digits 16 10)"
  "evaluateRequirement c ex_B_frozen = Inr (ex_B_frozen, True)"
  "evaluateRequirement c ex_go_frozen = Inr (ex_go_frozen, True)"
  "b_middleware ex_go_frozen = Some (\<lambda>c api p. ([], Inl (Error ''boom'')))"
  by (simp_all add: ex_B_frozen_def ex_go_frozen_def ex_B_def ex_go_def text_button_result
      deepFreeze_button_def deepFreeze_requirement_def build_requirement_def
      evaluateRequirement_def draw_def ex_entropy_def)

lemma ex_frozen_menus:
  "deepFreeze ex_root_menu =
     \<lparr>m_menuId = ''root'',
      m_buttons = \<lparr>bm_buttons = \<lparr>elems = [\<lparr>elems = [ex_B_frozen], arr_frozen = True\<rparr>],
                                arr_frozen = True\<rparr>, bm_frozen = True\<rparr>,
      m_parentMenuId = None, m_frozen = True, m_dynamicGenerators = [],
      m_temporaryButtons = None\<rparr>"
  "deepFreeze (ex_sub_menu\<lparr>m_parentMenuId := Some ''root''\<rparr>) =
     \<lparr>m_menuId = ''sub'',
      m_buttons = \<lparr>bm_buttons = \<lparr>elems = [\<lparr>elems = [ex_go_frozen], arr_frozen = True\<rparr>],
                                arr_frozen = True\<rparr>, bm_frozen = True\<rparr>,
      m_parentMenuId = Some ''root'', m_frozen = True, m_dynamicGenerators = [],
      m_temporaryButtons = None\<rparr>"
  by (simp_all add: ex_root_menu_eq ex_sub_menu_eq deepFreeze_def deepFreeze_manager_def
      deepFreeze_rows_def deepFreeze_row_def ex_button_facts ex_B_frozen_def ex_go_frozen_def)

lemma ex_root_evaluated:
  "evaluate c None (deepFreeze ex_root_menu) e =
     (((deepFreeze ex_root_menu)\<lparr>m_temporaryButtons :=
          Some \<lparr>bm_buttons = \<lparr>elems = [\<lparr>elems = [ex_B_frozen], arr_frozen = False\<rparr>],
                               arr_frozen = False\<rparr>, bm_frozen = False\<rparr>\<rparr>, None), e)"
  by (simp add: ex_frozen_menus evaluate_def getButtons_def merge_button_def manager_one_button
      ex_button_facts evaluateAll_def)

lemma ex_registered:
  "mm_menus (registerMenu 0 ex_route_world) = [(''sub'', Suc 0), (''root'', 0)]"
  "heap (registerMenu 0 ex_route_world) 0 = deepFreeze ex_root_menu"
  "heap (registerMenu 0 ex_route_world) (Suc 0)
     = deepFreeze (ex_sub_menu\<lparr>m_parentMenuId := Some ''root''\<rparr>)"
  "w_entropy (registerMenu 0 ex_route_world) = ex_entropy"
  "w_events (registerMenu 0 ex_route_world) = []"
  "mm_payload (registerMenu 0 ex_route_world) = None"
proof -
  have u: "get_prop (mm_menus ex_route_world) (m_menuId (heap ex_route_world 0)) = Undefined"
    by (simp add: ex_route_world_fields ex_root_menu_eq get_prop_fresh)
  show "mm_menus (registerMenu 0 ex_route_world) = [(''sub'', Suc 0), (''root'', 0)]"
    "heap (registerMenu 0 ex_route_world) 0 = deepFreeze ex_root_menu"
    "heap (registerMenu 0 ex_route_world) (Suc 0)
       = deepFreeze (ex_sub_menu\<lparr>m_parentMenuId := Some ''root''\<rparr>)"
    "w_entropy (registerMenu 0 ex_route_world) = ex_entropy"
    "w_events (registerMenu 0 ex_route_world) = []"
    "mm_payload (registerMenu 0 ex_route_world) = None"
    by (simp_all add: registerMenu_new[OF u] ex_route_world_fields ex_root_menu_eq)
qed

lemma ex_click_facts:
  "message_id_of (ex_click tok) = Inr (Some 7)" "callback_data_of (ex_click tok) = Some tok"
  by (simp_all add: message_id_of_def callback_data_of_def ex_click_def)

lemma ex_rendered:
  "Menu_evaluate 0 (setContext (ex_click tok) (Some 7) None (registerMenu 0 ex_route_world))
     = (None, (ex_rendered_world tok))"
  "mm_menus (ex_rendered_world tok) = [(''sub'', Suc 0), (''root'', 0)]"
  "w_events (ex_rendered_world tok) = []"
  "elems (bm_buttons (current_buttons (heap (ex_rendered_world tok) 0)))
     = [\<lparr>elems = [ex_B_frozen], arr_frozen = False\<rparr>]"
  "elems (bm_buttons (current_buttons (heap (ex_rendered_world tok) (Suc 0))))
     = [\<lparr>elems = [ex_go_frozen], arr_frozen = True\<rparr>]"
  "m_temporaryButtons (heap (ex_rendered_world tok) (Suc 0)) = None"
proof -
  let ?w2 = "setContext (ex_click tok) (Some 7) None (registerMenu 0 ex_route_world)"
  have h0: "heap ?w2 0 = deepFreeze ex_root_menu"
    and h1: "heap ?w2 (Suc 0) = deepFreeze (ex_sub_menu\<lparr>m_parentMenuId := Some ''root''\<rparr>)"
    and p: "getPayload ?w2 = None" and m: "mm_menus ?w2 = [(''sub'', Suc 0), (''root'', 0)]"
    and ev: "w_events ?w2 = []"
    by (simp_all add: setContext_fields ex_registered getPayload_def setContext_def Let_def)
  have res: "Menu_evaluate 0 ?w2 =
      (None, ?w2\<lparr>heap := (heap ?w2)(0 := (deepFreeze ex_root_menu)\<lparr>m_temporaryButtons :=
          Some \<lparr>bm_buttons = \<lparr>elems = [\<lparr>elems = [ex_B_frozen], arr_frozen = False\<rparr>],
                               arr_frozen = False\<rparr>, bm_frozen = False\<rparr>\<rparr>),
             w_entropy := w_entropy ?w2\<rparr>)"
    by (simp add: Menu_evaluate_def h0 p ex_root_evaluated)
  show "Menu_evaluate 0 ?w2 = (None, (ex_rendered_world tok))"
    using res by (simp add: ex_rendered_world_def)
  have w3: "(ex_rendered_world tok) = ?w2\<lparr>heap := (heap ?w2)(0 := (deepFreeze ex_root_menu)\<lparr>m_temporaryButtons :=
          Some \<lparr>bm_buttons = \<lparr>elems = [\<lparr>elems = [ex_B_frozen], arr_frozen = False\<rparr>],
                               arr_frozen = False\<rparr>, bm_frozen = False\<rparr>\<rparr>),
             w_entropy := w_entropy ?w2\<rparr>"
    using res by (simp add: ex_rendered_world_def)
  show "mm_menus (ex_rendered_world tok) = [(''sub'', Suc 0), (''root'', 0)]"
    "w_events (ex_rendered_world tok) = []"
    by (simp_all add: w3 m ev)
  show "elems (bm_buttons (current_buttons (heap (ex_rendered_world tok) 0)))
     = [\<lparr>elems = [ex_B_frozen], arr_frozen = False\<rparr>]"
    by (simp add: w3 current_buttons_def)
  show "elems (bm_buttons (current_buttons (heap (ex_rendered_world tok) (Suc 0))))
     = [\<lparr>elems = [ex_go_frozen], arr_frozen = True\<rparr>]"
    "m_temporaryButtons (heap (ex_rendered_world tok) (Suc 0)) = None"
    by (simp_all add: w3 h1 current_buttons_def ex_frozen_menus)
qed

lemma ex_order: "menus_in_order [(''sub'', Suc 0), (''root'', 0)] = [Suc 0, 0]"
  by (simp add: menus_in_order_def for_in_keys_def is_array_index_def is_digit_def)

lemma ex_found:
  "List.find (has_token ''000000000000000a'')
     (scan_order (heap (ex_rendered_world tok)) (menus_in_order (mm_menus (ex_rendered_world tok))))
   = Some (Suc 0, 0, 0, ex_go_frozen)"
  "List.find (has_token ''nope'')
     (scan_order (heap (ex_rendered_world tok)) (menus_in_order (mm_menus (ex_rendered_world tok))))
   = None"
  by (simp_all add: ex_rendered ex_order scan_order_def positions_in_rows_def enumerate_eq_zip
      has_token_def ex_button_facts token_10 token_11)

lemma ex_handled:
  "handler (ex_click tok) (MenuApi (Suc 0)) ex_go_frozen w =
     ((ex_go_frozen, Inr None),
      emit [CallMiddleware (MenuApi (Suc 0)), ConsoleError ''Error in middleware:'' (Error ''boom'')]
        w)"
  by (simp add: handler_def ex_button_facts run_callback_def emit_def)

theorem route_claim_witness:
  "message_id_of (ex_click ''nope'') = Inr (Some 7)
   \<and> middleware 0 (ex_click ''nope'') ex_route_world =
       (None, emit [ConsoleLog ''No button found for callback data: nope'', AnswerCbQuery, CallNext]
                (ex_rendered_world ''nope''))
   \<and> middleware 0 (ex_click ''000000000000000a'') ex_route_world =
       (None,
        emit [CallMiddleware (MenuApi (Suc 0)),
              ConsoleError ''Error in middleware:'' (Error ''boom''), AnswerCbQuery, CallNext]
          ((ex_rendered_world ''000000000000000a'')
             \<lparr>heap := (heap (ex_rendered_world ''000000000000000a''))
                (Suc 0 := store_current 0 0 ex_go_frozen
                            (heap (ex_rendered_world ''000000000000000a'') (Suc 0)))\<rparr>))
   \<and> menus_in_order (mm_menus (ex_rendered_world ''nope'')) = [Suc 0, 0]"
proof -
  let ?tok = "''000000000000000a''"
  have keys: "list_all (\<lambda>k. \<not> is_array_index k) (map fst (mm_menus (ex_rendered_world ''nope'')))
      \<and> distinct (map fst (mm_menus (ex_rendered_world ''nope'')))"
    by (simp add: ex_rendered is_array_index_def is_digit_def)
  note miss = route_claim[OF ex_click_facts(1) ex_rendered(1) ex_click_facts(2), of "''nope''"]
  note hit = route_claim[OF ex_click_facts(1) ex_rendered(1) ex_click_facts(2),
      of ?tok "Suc 0" 0 0 ex_go_frozen ex_go_frozen "Inr None"
         "emit [CallMiddleware (MenuApi (Suc 0)),
                ConsoleError ''Error in middleware:'' (Error ''boom'')] (ex_rendered_world ?tok)"]
  have a: "middleware 0 (ex_click ''nope'') ex_route_world =
       (None, emit [ConsoleLog ''No button found for callback data: nope'', AnswerCbQuery, CallNext]
                (ex_rendered_world ''nope''))"
    using miss ex_found(2)[of "''nope''"] by simp
  have b: "middleware 0 (ex_click ?tok) ex_route_world =
       (None,
        emit [CallMiddleware (MenuApi (Suc 0)),
              ConsoleError ''Error in middleware:'' (Error ''boom''), AnswerCbQuery, CallNext]
          ((ex_rendered_world ?tok)
             \<lparr>heap := (heap (ex_rendered_world ?tok))
                (Suc 0 := store_current 0 0 ex_go_frozen
                            (heap (ex_rendered_world ?tok) (Suc 0)))\<rparr>))"
    using hit ex_found(1)[of ?tok] ex_handled[of ?tok "ex_rendered_world ?tok"]
    by (simp add: emit_def)
  have c: "menus_in_order (mm_menus (ex_rendered_world ''nope'')) = [Suc 0, 0]"
    using miss keys by (simp add: ex_rendered)
  show ?thesis
    using a b c ex_click_facts(1) by simp
qed

text \<open>
  The claim as stated fails twice. A registered menu that was never rendered has no
  rendered grid, yet the button of its static grid is found and its handler runs. And
  the menus are not visited in registration order when an id is an array index: a menu
  registered second under the id 2 is visited before one registered first under b.
\<close>

theorem route_claim_counterexample:
  "m_temporaryButtons (heap ex_route_world (Suc 0)) = None
   \<and> fst (middleware 0 (ex_click ''000000000000000a'') ex_route_world) = None
   \<and> w_events (snd (middleware 0 (ex_click ''000000000000000a'') ex_route_world)) =
        [CallMiddleware (MenuApi (Suc 0)),
         ConsoleError ''Error in middleware:'' (Error ''boom''), AnswerCbQuery, CallNext]
   \<and> menus_in_order [(''b'', 0), (''2'', Suc 0)] = [Suc 0, 0]"
proof -
  let ?tok = "''000000000000000a''"
  let ?w4 = "emit [CallMiddleware (MenuApi (Suc 0)),
                   ConsoleError ''Error in middleware:'' (Error ''boom'')] (ex_rendered_world ?tok)"
  have never: "m_temporaryButtons (heap ex_route_world (Suc 0)) = None"
    by (simp add: ex_route_world_fields ex_frozen_menus)
  have found: "find_in_menus (heap (ex_rendered_world ?tok))
                 (menus_in_order (getMenus (ex_rendered_world ?tok))) ?tok
               = Some (Suc 0, 0, 0, ex_go_frozen)"
    using ex_found(1)[of ?tok] by (simp add: find_in_menus_scan getMenus_def)
  have run: "middleware 0 (ex_click ?tok) ex_route_world =
       (None,
        emit [AnswerCbQuery, CallNext]
          (?w4\<lparr>heap := (heap ?w4)
                (Suc 0 := store_current 0 0 ex_go_frozen (heap ?w4 (Suc 0)))\<rparr>))"
    using middleware_routed[OF ex_click_facts(1) ex_rendered(1) ex_click_facts(2) _ found
        ex_handled[of ?tok "ex_rendered_world ?tok"]]
    by simp
  have order: "menus_in_order [(''b'', 0), (''2'', Suc 0)] = [Suc 0, 0]"
    by (simp add: menus_in_order_def for_in_keys_def is_array_index_def is_digit_def
        int_of_digits_def digit_value_def)
  show ?thesis
    using never order by (simp add: run emit_def ex_rendered)
qed

section \<open>Properties of the registry's transient fields\<close>


















section \<open>Properties of registration and freezing\<close>

lemma deepFreeze_button_frozen: "frozen_button (deepFreeze_button b)"
  by (simp add: frozen_button_def deepFreeze_button_def deepFreeze_requirement_def)

lemma deepFreeze_pristine:
  assumes "pristine_menu m"
  shows "deepFreeze m =
     m\<lparr>m_frozen := True,
       m_buttons := \<lparr>bm_buttons =
           \<lparr>elems = map (\<lambda>r. \<lparr>elems = map deepFreeze_button (elems r), arr_frozen = True\<rparr>)
                      (elems (bm_buttons (m_buttons m))),
            arr_frozen = True\<rparr>, bm_frozen = True\<rparr>\<rparr>"
proof -
  have a: "\<not> bm_frozen (m_buttons m)" "\<not> arr_frozen (bm_buttons (m_buttons m))"
    and rows: "\<forall>r\<in>set (elems (bm_buttons (m_buttons m))). \<not> arr_frozen r
                 \<and> (\<forall>b\<in>set (elems r). \<not> b_frozen b)"
    using assms
    by (auto simp: pristine_menu_def unfrozen_manager_def unfrozen_button_def list_all_iff)
  have inner: "deepFreeze_row r = \<lparr>elems = map deepFreeze_button (elems r), arr_frozen = True\<rparr>"
    if "r \<in> set (elems (bm_buttons (m_buttons m)))" for r
  proof -
    have "map (\<lambda>b. if b_frozen b then b else deepFreeze_button b) (elems r)
            = map deepFreeze_button (elems r)"
      using rows that by (intro map_cong) auto
    then show ?thesis by (simp add: deepFreeze_row_def)
  qed
  have "map (\<lambda>r. if arr_frozen r then r else deepFreeze_row r) (elems (bm_buttons (m_buttons m)))
      = map (\<lambda>r. \<lparr>elems = map deepFreeze_button (elems r), arr_frozen = True\<rparr>)
          (elems (bm_buttons (m_buttons m)))"
    using rows inner by (intro map_cong) auto
  then show ?thesis
    using a by (simp add: deepFreeze_def deepFreeze_manager_def deepFreeze_rows_def)
qed

lemma deepFreeze_deep_frozen:
  assumes "pristine_menu m"
  shows "deep_frozen (deepFreeze m)"
    and "rows_of (m_buttons (deepFreeze m)) = map (map deepFreeze_button) (rows_of (m_buttons m))"
    and "elems (bm_buttons (m_buttons (deepFreeze m))) \<noteq> []"
    and "m_dynamicGenerators (deepFreeze m) = m_dynamicGenerators m"
    and "m_temporaryButtons (deepFreeze m) = m_temporaryButtons m"
proof -
  have ne: "elems (bm_buttons (m_buttons m)) \<noteq> []"
    using assms by (simp add: pristine_menu_def unfrozen_manager_def)
  show "deep_frozen (deepFreeze m)"
    by (simp add: deepFreeze_pristine[OF assms] deep_frozen_def list_all_iff
        deepFreeze_button_frozen)
  show "rows_of (m_buttons (deepFreeze m)) = map (map deepFreeze_button) (rows_of (m_buttons m))"
    by (simp add: deepFreeze_pristine[OF assms] rows_of_def comp_def)
  show "elems (bm_buttons (m_buttons (deepFreeze m))) \<noteq> []"
    using ne by (simp add: deepFreeze_pristine[OF assms])
  show "m_dynamicGenerators (deepFreeze m) = m_dynamicGenerators m"
    "m_temporaryButtons (deepFreeze m) = m_temporaryButtons m"
    by (simp_all add: deepFreeze_def)
qed

lemma addButton_frozen:
  assumes "elems (bm_buttons bm) \<noteq> []" "arr_frozen (last (elems (bm_buttons bm)))"
  shows "addButton b bm = Inl (TypeError ''Cannot add property, object is not extensible'')"
  using assms by (simp add: addButton_def push_def Let_def)

lemma newRow_frozen:
  assumes "elems (bm_buttons bm) \<noteq> []" "arr_frozen (bm_buttons bm)"
    "elems (last (elems (bm_buttons bm))) \<noteq> []"
  shows "newRow bm = Inl (TypeError ''Cannot add property, object is not extensible'')"
  using assms by (simp add: newRow_def push_def Let_def)

lemma deep_frozen_last:
  assumes "deep_frozen m" "elems (bm_buttons (m_buttons m)) \<noteq> []"
  shows "arr_frozen (last (elems (bm_buttons (m_buttons m))))"
  using assms by (auto simp: deep_frozen_def list_all_iff)

lemma append_built_frozen:
  assumes "deep_frozen m" "elems (bm_buttons (m_buttons m)) \<noteq> []" "fst r = Inr b"
  shows "fst (on_buttons (append_built r (m_buttons m)) m)
           = (m, Some (TypeError ''Cannot add property, object is not extensible''))"
proof -
  obtain e where r: "r = (Inr b, e)" using assms(3) by (cases r) auto
  show ?thesis
    using addButton_frozen[OF assms(2) deep_frozen_last[OF assms(1,2)], of b]
    by (simp add: r append_built_def on_buttons_def)
qed

lemma frozen_builders:
  assumes "deep_frozen m" "elems (bm_buttons (m_buttons m)) \<noteq> []"
  shows "fst (Menu_text lbl mw req m e)
           = (m, Some (TypeError ''Cannot add property, object is not extensible''))"
    and "fst (Menu_url lbl u req m e)
           = (m, Some (TypeError ''Cannot add property, object is not extensible''))"
    and "fst (Menu_webApp lbl u req m e)
           = (m, Some (TypeError ''Cannot add property, object is not extensible''))"
    and "fst (Menu_dynamic g m e)
           = (m\<lparr>m_dynamicGenerators := m_dynamicGenerators m
                   @ [(''dynamic_'' @ string_of_nat (length (m_dynamicGenerators m)), g)]\<rparr>,
              Some (TypeError ''Cannot add property, object is not extensible''))"
    and "elems (last (elems (bm_buttons (m_buttons m)))) \<noteq> [] \<Longrightarrow>
           Menu_row m = (m, Some (TypeError ''Cannot add property, object is not extensible''))"
    and "elems (last (elems (bm_buttons (m_buttons m)))) = [] \<Longrightarrow> Menu_row m = (m, None)"
proof -
  obtain b1 where "fst (text_button lbl mw req e) = Inr b1" using builders_Inr(1) by blast
  then show "fst (Menu_text lbl mw req m e)
           = (m, Some (TypeError ''Cannot add property, object is not extensible''))"
    unfolding Menu_text_def by (rule append_built_frozen[OF assms])
  obtain b2 where "fst (url_button lbl u req e) = Inr b2" using builders_Inr(2) by blast
  then show "fst (Menu_url lbl u req m e)
           = (m, Some (TypeError ''Cannot add property, object is not extensible''))"
    unfolding Menu_url_def by (rule append_built_frozen[OF assms])
  obtain b3 where "fst (webApp_button lbl u req e) = Inr b3" using builders_Inr(3) by blast
  then show "fst (Menu_webApp lbl u req m e)
           = (m, Some (TypeError ''Cannot add property, object is not extensible''))"
    unfolding Menu_webApp_def by (rule append_built_frozen[OF assms])
  let ?id = "''dynamic_'' @ string_of_nat (length (m_dynamicGenerators m))"
  let ?m1 = "m\<lparr>m_dynamicGenerators := m_dynamicGenerators m @ [(?id, g)]\<rparr>"
  have f1: "deep_frozen ?m1" "elems (bm_buttons (m_buttons ?m1)) \<noteq> []"
    using assms by (simp_all add: deep_frozen_def)
  obtain b4 :: "('a, 'b) button" where b4: "fst (placeholder_button ?id e) = Inr b4"
    using builders_Inr(4) by blast
  have "fst (on_buttons (append_built (placeholder_button ?id e) (m_buttons ?m1)) ?m1)
           = (?m1, Some (TypeError ''Cannot add property, object is not extensible''))"
    using append_built_frozen[OF f1 b4] .
  then show "fst (Menu_dynamic g m e)
           = (?m1, Some (TypeError ''Cannot add property, object is not extensible''))"
    by (simp add: Menu_dynamic_def Let_def)
  have outer: "arr_frozen (bm_buttons (m_buttons m))"
    using assms(1) by (simp add: deep_frozen_def)
  show "elems (last (elems (bm_buttons (m_buttons m)))) \<noteq> [] \<Longrightarrow>
           Menu_row m = (m, Some (TypeError ''Cannot add property, object is not extensible''))"
    using newRow_frozen[OF assms(2) outer] by (simp add: Menu_row_def)
  show "elems (last (elems (bm_buttons (m_buttons m)))) = [] \<Longrightarrow> Menu_row m = (m, None)"
    using assms(2) by (simp add: Menu_row_def newRow_def Let_def)
qed


lemma evaluateRequirement_frozen:
  "evaluateRequirement ctx (deepFreeze_button b) =
     (case evaluateRequirement ctx b of
        Inl err \<Rightarrow> Inl err
      | Inr (b', c) \<Rightarrow> Inr (deepFreeze_button b', c))"
proof (cases "b_type b = Placeholder")
  case True
  then show ?thesis
    by (cases "req_frozen (b_requirement b)")
      (simp_all add: evaluateRequirement_def deepFreeze_button_def deepFreeze_requirement_def)
next
  case False
  show ?thesis
  proof (cases "req_require (b_requirement b) ctx")
    case (Inl err)
    then show ?thesis using False
      by (cases "req_frozen (b_requirement b)")
        (simp_all add: evaluateRequirement_def deepFreeze_button_def deepFreeze_requirement_def)
  next
    case (Inr check)
    then show ?thesis using False
      by (cases "req_frozen (b_requirement b)")
        (simp_all add: evaluateRequirement_def deepFreeze_button_def deepFreeze_requirement_def)
  qed
qed

lemma toJSON_frozen: "Button_toJSON ctx (deepFreeze_button b) e = Button_toJSON ctx b e"
  by (simp add: Button_toJSON_def deepFreeze_button_def getLabel_def)

lemma row_toJSON_frozen: "row_toJSON ctx (map deepFreeze_button bs) e = row_toJSON ctx bs e"
  by (induction bs arbitrary: e) (simp_all add: toJSON_frozen)

lemma rows_toJSON_frozen:
  "rows_toJSON ctx (map (\<lambda>r. \<lparr>elems = map deepFreeze_button (elems r), arr_frozen = True\<rparr>) rows) e
     = rows_toJSON ctx rows e"
  by (induction rows arbitrary: e) (simp_all add: row_toJSON_frozen)

lemma Menu_toJSON_frozen:
  assumes "pristine_menu m"
  shows "Menu_toJSON x c (deepFreeze m) e = Menu_toJSON x c m e"
proof (cases "m_temporaryButtons m")
  case None
  then show ?thesis
    by (simp add: Menu_toJSON_def current_buttons_def ButtonManager_toJSON_def
        deepFreeze_pristine[OF assms] rows_toJSON_frozen)
next
  case (Some t)
  then show ?thesis
    by (simp add: Menu_toJSON_def current_buttons_def deepFreeze_pristine[OF assms])
qed

lemma evaluateRequirement_thrown:
  "evaluateRequirement ctx b = Inl err \<Longrightarrow> req_require (b_requirement b) ctx = Inl err"
  by (auto simp: evaluateRequirement_def split: if_splits sum.splits)

lemma evaluateRow_thrown:
  "snd (evaluateRow ctx bs) = Some err \<Longrightarrow>
   \<exists>b\<in>set (fst (evaluateRow ctx bs)). evaluateRequirement ctx b = Inl err"
proof (induction bs)
  case Nil
  then show ?case by simp
next
  case (Cons b bs)
  show ?case
  proof (cases "evaluateRequirement ctx b")
    case (Inl e)
    then show ?thesis using Cons.prems by simp
  next
    case (Inr r)
    obtain b' c where r: "r = (b', c)" by (cases r)
    obtain bs' r' where e: "evaluateRow ctx bs = (bs', r')" by (cases "evaluateRow ctx bs")
    show ?thesis using Cons Inr r e by auto
  qed
qed

lemma evaluateRows_thrown:
  "snd (evaluateRows ctx rows) = Some err \<Longrightarrow>
   \<exists>row\<in>set (fst (evaluateRows ctx rows)). \<exists>b\<in>set (elems row). evaluateRequirement ctx b = Inl err"
proof (induction rows)
  case Nil
  then show ?case by simp
next
  case (Cons row rows)
  obtain bs r where e: "evaluateRow ctx (elems row) = (bs, r)"
    by (cases "evaluateRow ctx (elems row)")
  obtain rows' r' where e2: "evaluateRows ctx rows = (rows', r')"
    by (cases "evaluateRows ctx rows")
  show ?case
  proof (cases r)
    case (Some err')
    then have "err' = err" using Cons.prems e by simp
    then have "\<exists>b\<in>set bs. evaluateRequirement ctx b = Inl err"
      using evaluateRow_thrown[of ctx "elems row" err] e Some by simp
    then show ?thesis using e Some by simp
  next
    case None
    then show ?thesis using Cons e e2 by auto
  qed
qed

lemma evaluateAll_thrown:
  assumes "evaluateAll ctx t0 = (t, Some err)"
  shows "\<exists>row\<in>set (rows_of t). \<exists>b\<in>set row. req_require (b_requirement b) ctx = Inl err"
proof -
  obtain rows r where e: "evaluateRows ctx (elems (bm_buttons t0)) = (rows, r)"
    by (cases "evaluateRows ctx (elems (bm_buttons t0))")
  have r: "r = Some err" and t: "rows_of t = map elems rows"
    using assms e by (auto simp: evaluateAll_def rows_of_def)
  obtain row b where "row \<in> set rows" "b \<in> set (elems row)" "evaluateRequirement ctx b = Inl err"
    using evaluateRows_thrown[of ctx "elems (bm_buttons t0)" err] e r by auto
  then show ?thesis
    using t evaluateRequirement_thrown[of ctx b err] by auto
qed

lemma evaluate_outcome:
  assumes "run_generators ctx p (m_dynamicGenerators m) Map.empty e = ((gc, None), e1)"
  shows "\<exists>t r. evaluate ctx p m e = ((m\<lparr>m_temporaryButtons := Some t\<rparr>, r), e1)
           \<and> (\<forall>err. r = Some err \<longrightarrow>
                (\<exists>row\<in>set (rows_of t). \<exists>b\<in>set row. req_require (b_requirement b) ctx = Inl err))"
proof -
  obtain t0 where t0: "merge_rows gc (elems (bm_buttons (m_buttons m))) ButtonManager = (t0, None)"
    using merge_rows_splice[of gc "elems (bm_buttons (m_buttons m))"] by blast
  obtain t r where ev: "evaluateAll ctx t0 = (t, r)"
    by (cases "evaluateAll ctx t0")
  have "evaluate ctx p m e = ((m\<lparr>m_temporaryButtons := Some t\<rparr>, r), e1)"
    using assms t0 ev by (simp add: evaluate_def getButtons_def)
  moreover have "\<forall>err. r = Some err \<longrightarrow>
      (\<exists>row\<in>set (rows_of t). \<exists>b\<in>set row. req_require (b_requirement b) ctx = Inl err)"
    using evaluateAll_thrown[of ctx t0 t] ev by auto
  ultimately show ?thesis by blast
qed

text \<open>
  C10. Take a menu none of whose objects is frozen, under an identifier that the registry
  does not resolve yet. Registering it records it and freezes the menu, its manager, the
  array of rows, every row, every element and every requirement object; the static grid
  holds the same elements, frozen. On the registered menu the text, url and webApp
  methods throw a TypeError and leave the menu as it is; the dynamic method throws the
  same error with the static grid unchanged; the row method throws it when the last row
  is non-empty. Requirement evaluation on a frozen element computes what it computes on
  the element before freezing; serialization of a frozen element and of the registered
  menu is that of the unfrozen one; and whenever the generators return, \<^verbatim>\<open>#evaluate\<close>
  stores a rendered grid in the menu, an error of it being one thrown by the predicate
  of an element of that grid.
\<close>

theorem freeze_claim:
  assumes pr: "pristine_menu (heap w a)"
    and un: "get_prop (mm_menus w) (m_menuId (heap w a)) = Undefined"
    and m': "m' = heap (registerMenu a w) a"
  shows
   "mm_menus (registerMenu a w) = mm_menus w @ [(m_menuId (heap w a), a)]
    \<and> deep_frozen m'
    \<and> rows_of (m_buttons m') = map (map deepFreeze_button) (rows_of (m_buttons (heap w a)))
    \<and> fst (Menu_text lbl mw req m' e)
         = (m', Some (TypeError ''Cannot add property, object is not extensible''))
    \<and> fst (Menu_url lbl u req m' e)
         = (m', Some (TypeError ''Cannot add property, object is not extensible''))
    \<and> fst (Menu_webApp lbl u req m' e)
         = (m', Some (TypeError ''Cannot add property, object is not extensible''))
    \<and> m_buttons (fst (fst (Menu_dynamic g m' e))) = m_buttons m'
    \<and> snd (fst (Menu_dynamic g m' e))
         = Some (TypeError ''Cannot add property, object is not extensible'')
    \<and> (last (rows_of (m_buttons m')) \<noteq> [] \<longrightarrow>
          Menu_row m' = (m', Some (TypeError ''Cannot add property, object is not extensible'')))
    \<and> evaluateRequirement ctx (deepFreeze_button b) =
         (case evaluateRequirement ctx b of
            Inl err \<Rightarrow> Inl err
          | Inr (b', c) \<Rightarrow> Inr (deepFreeze_button b', c))
    \<and> Button_toJSON ctx (deepFreeze_button b) e = Button_toJSON ctx b e
    \<and> Menu_toJSON x ctx m' e = Menu_toJSON x ctx (heap w a) e
    \<and> (run_generators ctx p (m_dynamicGenerators m') Map.empty e = ((gc, None), e1) \<longrightarrow>
         (\<exists>t r. evaluate ctx p m' e = ((m'\<lparr>m_temporaryButtons := Some t\<rparr>, r), e1)
            \<and> (\<forall>err. r = Some err \<longrightarrow>
                 (\<exists>row\<in>set (rows_of t). \<exists>b\<in>set row.
                     req_require (b_requirement b) ctx = Inl err))))"
proof -
  have reg: "registerMenu a w =
     w\<lparr>mm_menus := mm_menus w @ [(m_menuId (heap w a), a)],
       heap := (heap w)(a := deepFreeze (heap w a))\<rparr>"
    using un by (rule registerMenu_new)
  have m: "m' = deepFreeze (heap w a)"
    using m' by (simp add: reg)
  have fr: "deep_frozen m'" and ne: "elems (bm_buttons (m_buttons m')) \<noteq> []"
    and rows: "rows_of (m_buttons m') = map (map deepFreeze_button) (rows_of (m_buttons (heap w a)))"
    unfolding m using deepFreeze_deep_frozen[OF pr] by simp_all
  have c1: "mm_menus (registerMenu a w) = mm_menus w @ [(m_menuId (heap w a), a)]"
    by (simp add: reg)
  note fb = frozen_builders[OF fr ne]
  have dyn1: "m_buttons (fst (fst (Menu_dynamic g m' e))) = m_buttons m'"
    and dyn2: "snd (fst (Menu_dynamic g m' e))
         = Some (TypeError ''Cannot add property, object is not extensible'')"
    by (simp_all add: fb(4))
  have row: "last (rows_of (m_buttons m')) \<noteq> [] \<longrightarrow>
          Menu_row m' = (m', Some (TypeError ''Cannot add property, object is not extensible''))"
    using fb(5) ne by (simp add: rows_of_def last_map)
  have js: "Menu_toJSON x ctx m' e = Menu_toJSON x ctx (heap w a) e"
    unfolding m using pr by (rule Menu_toJSON_frozen)
  have ev: "run_generators ctx p (m_dynamicGenerators m') Map.empty e = ((gc, None), e1) \<longrightarrow>
         (\<exists>t r. evaluate ctx p m' e = ((m'\<lparr>m_temporaryButtons := Some t\<rparr>, r), e1)
            \<and> (\<forall>err. r = Some err \<longrightarrow>
                 (\<exists>row\<in>set (rows_of t). \<exists>b\<in>set row.
                     req_require (b_requirement b) ctx = Inl err)))"
    using evaluate_outcome[of ctx p m' e gc e1] by blast
  show ?thesis
    by (intro conjI) (fact c1, fact fr, fact rows, fact fb(1), fact fb(2), fact fb(3),
        fact dyn1, fact dyn2, fact row, fact evaluateRequirement_frozen, fact toJSON_frozen,
        fact js, fact ev)
qed

lemma ex_sub_pristine: "pristine_menu ex_sub_menu"
  by (simp add: pristine_menu_def unfrozen_manager_def unfrozen_button_def ex_sub_menu_eq
      ex_go_def text_button_result build_requirement_def)

theorem freeze_claim_witness:
  "pristine_menu (heap ex_fresh_world (Suc 0))
   \<and> get_prop (mm_menus ex_fresh_world) (m_menuId (heap ex_fresh_world (Suc 0))) = Undefined
   \<and> mm_menus (registerMenu (Suc 0) ex_fresh_world) = [(''sub'', Suc 0)]
   \<and> rows_of (m_buttons (heap (registerMenu (Suc 0) ex_fresh_world) (Suc 0))) = [[ex_go_frozen]]
   \<and> fst (Menu_text (Literal ''More'') None None
             (heap (registerMenu (Suc 0) ex_fresh_world) (Suc 0)) ex_entropy)
        = (heap (registerMenu (Suc 0) ex_fresh_world) (Suc 0),
           Some (TypeError ''Cannot add property, object is not extensible''))
   \<and> Menu_row (heap (registerMenu (Suc 0) ex_fresh_world) (Suc 0))
        = (heap (registerMenu (Suc 0) ex_fresh_world) (Suc 0),
           Some (TypeError ''Cannot add property, object is not extensible''))"
proof -
  have h: "heap ex_fresh_world (Suc 0) = ex_sub_menu" "mm_menus ex_fresh_world = []"
    by (simp_all add: ex_fresh_world_def)
  have pr: "pristine_menu (heap ex_fresh_world (Suc 0))"
    using ex_sub_pristine by (simp add: h)
  have un: "get_prop (mm_menus ex_fresh_world) (m_menuId (heap ex_fresh_world (Suc 0))) = Undefined"
    by (simp add: h ex_sub_menu_eq get_prop_fresh)
  have rows: "rows_of (m_buttons (heap ex_fresh_world (Suc 0))) = [[ex_go]]"
    by (simp add: h ex_sub_menu_eq rows_of_def)
  note c = freeze_claim[OF pr un refl, where lbl = "Literal ''More''" and mw = None
      and req = None and e = ex_entropy and b = ex_go]
  show ?thesis
    using pr un c rows by (simp add: h ex_sub_menu_eq ex_go_frozen_def)
qed

end
